theory Spec2Isabelle
  imports Complex_Main "HOL-Library.Word"
begin

section \<open>The ATK ACPI device channel\<close>

text \<open>
  The monitor talks to the vendor driver through three calls of kernel32: CreateFileW,
  DeviceIoControl and CloseHandle. The driver and the file system are outside the
  program, so they are parameters of the model: an environment whose answers may depend
  on everything the program has done so far (the trace of its calls). A driver that
  does not echo a mode back after a write is one such environment.
\<close>

type_synonym byte = "8 word"

datatype io_event =
    CreateFileW
  | DeviceIoControl int int int int
  | CloseHandle
  | OpenCacheRead
  | OpenCacheWrite

text \<open>
  The content of mode\_cache.json as \<open>load_mode_cache\<close> sees it: no readable file, a
  file whose content makes the \<open>try\<close> block raise, or a JSON object, of which only the
  two keys read by \<open>data.get\<close> matter (a missing key and \<open>null\<close> both give \<open>None\<close>).
  The program writes only strings and \<open>null\<close> under the two keys, and a file is changed
  by the program only.
\<close>

datatype cache_file =
    Missing
  | Corrupt
  | Json "string option" "string option"

text \<open>
  What happens inside the \<open>try\<close> block of \<open>_save_mode_cache\<close>: the record is
  written, or \<open>open\<close> raises and the file stays as it was, or \<open>open\<close> has truncated the
  file and the write raises.
\<close>

datatype write_outcome = Written | OpenRaised | DumpRaised

text \<open>
  A Python float is a finite binary64 number, kept as mantissa and exponent: the pair
  \<open>(m, e)\<close> is the number \<open>m * 2 ^ e\<close>.
\<close>

type_synonym float = "int \<times> int"

text \<open>
  The sensor back ends (LibreHardwareMonitor, NVML, psutil) are read through functions that
  swallow every exception and return optional values; the environment gives what they
  return. \<open>cpu_fan_linux\<close> is the value after \<open>round(x, 0)\<close> and its conversion to the
  integer field of \<open>ThermalStats\<close>.
\<close>

record env =
  os_nt :: bool
  create_file_ok :: "io_event list \<Rightarrow> bool"
  device_reply :: "io_event list \<Rightarrow> byte list option"
  cache_write :: "io_event list \<Rightarrow> write_outcome"
  lhm_cpu_sensors :: "float option \<times> float option \<times> float option \<times> float option"
  lhm_gpu_sensors :: "float option \<times> float option \<times> float option \<times> float option"
  gpu_stats_nvidia :: "float option \<times> float option"
  cpu_temp_linux :: "float option"
  cpu_fan_linux :: "int option"

record state =
  trace :: "io_event list"
  mode_cache_file :: cache_file
  cached_cpu_mode :: "string option"
  cached_gpu_mode :: "string option"

definition DSTS :: int where "DSTS = 0x53545344"
definition DEVS :: int where "DEVS = 0x53564544"
definition ATK_CPU_FAN_ID :: int where "ATK_CPU_FAN_ID = 0x00110013"
definition ATK_GPU_FAN_ID :: int where "ATK_GPU_FAN_ID = 0x00110014"
definition FAN_MAX_RPM :: int where "FAN_MAX_RPM = 6600"
definition ATK_CPU_MODE_ID :: int where "ATK_CPU_MODE_ID = 0x00120075"
definition ATK_GPU_ECO_ID :: int where "ATK_GPU_ECO_ID = 0x00090020"
definition ATK_GPU_MUX_ID :: int where "ATK_GPU_MUX_ID = 0x00090016"

definition log_event :: "io_event \<Rightarrow> state \<Rightarrow> state" where
  "log_event e s = s\<lparr>trace := trace s @ [e]\<rparr>"

text \<open>
  \<open>kernel32.CreateFileW(...)\<close>: the result says whether the handle is valid
  (neither \<open>INVALID_HANDLE\<close> nor 0).
\<close>

definition create_file :: "env \<Rightarrow> state \<Rightarrow> bool \<times> state" where
  "create_file E s = (create_file_ok E (trace s), log_event CreateFileW s)"

text \<open>
  \<open>ctypes.create_string_buffer(16)\<close> is sixteen zero bytes; the driver overwrites a
  prefix of it and can never write past its end.
\<close>

definition create_string_buffer :: "nat \<Rightarrow> byte list" where
  "create_string_buffer n = replicate n 0"

definition fill_buffer :: "byte list \<Rightarrow> byte list \<Rightarrow> byte list" where
  "fill_buffer out_buf written =
     take (length out_buf) written @ drop (length written) out_buf"

text \<open>
  \<open>kernel32.DeviceIoControl(handle, ATK_IOCTL, in_buf, 16, out_buf, 16, ...)\<close> with
  \<open>in_buf = struct.pack("<IIII", method, 8, device_id, value)\<close>: \<open>None\<close> when the
  call reports failure, else the output buffer as the driver left it.
\<close>

definition device_io_control ::
  "env \<Rightarrow> state \<Rightarrow> int \<Rightarrow> int \<Rightarrow> int \<Rightarrow> byte list option \<times> state" where
  "device_io_control E s method device_id v =
     (let s' = log_event (DeviceIoControl method 8 device_id v) s
      in (map_option (fill_buffer (create_string_buffer 16)) (device_reply E (trace s')), s'))"

definition close_handle :: "state \<Rightarrow> state" where
  "close_handle s = log_event CloseHandle s"

section \<open>Decoding a driver reply\<close>

datatype exn = StructError

text \<open>
  \<open>struct.unpack_from("<i", buf, 0)[0]\<close>: the first four bytes as a little-endian
  two's complement integer; \<open>struct.error\<close> when the buffer has fewer than four bytes.
\<close>

fun unpack_from_i32 :: "byte list \<Rightarrow> exn + int" where
  "unpack_from_i32 (b0 # b1 # b2 # b3 # rest) =
     (let u = uint b0 + 2 ^ 8 * uint b1 + 2 ^ 16 * uint b2 + 2 ^ 24 * uint b3
      in Inr (if u \<ge> 2 ^ 31 then u - 2 ^ 32 else u))"
| "unpack_from_i32 _ = Inl StructError"

text \<open>
  Lines 145 to 147 of \<open>_atk_read_fan\<close>:
  \<open>val = raw - 65536; if val < 0: val += 65536\<close>.
\<close>

definition fan_decode :: "int \<Rightarrow> int" where
  "fan_decode raw = (let val = raw - 65536 in if val < 0 then val + 65536 else val)"

text \<open>Line 183 of \<open>_atk_read_device\<close>: \<open>return raw - 65536\<close>.\<close>

definition device_decode :: "int \<Rightarrow> int" where
  "device_decode raw = raw - 65536"

text \<open>Lines 148 to 150: the range check and the conversion to RPM.\<close>

definition fan_rpm_of :: "int \<Rightarrow> int option" where
  "fan_rpm_of val = (if val \<le> 0 \<or> val > 100 then None else Some (val * 100))"

definition atk_read_fan :: "env \<Rightarrow> state \<Rightarrow> int \<Rightarrow> (exn + int option) \<times> state" where
  "atk_read_fan E s device_id =
     (case create_file E s of
        (False, s1) \<Rightarrow> (Inr None, s1)
      | (True, s1) \<Rightarrow>
          (case device_io_control E s1 DSTS device_id 0 of
             (None, s2) \<Rightarrow> (Inr None, close_handle s2)
           | (Some out_buf, s2) \<Rightarrow>
               (case unpack_from_i32 out_buf of
                  Inl e \<Rightarrow> (Inl e, close_handle s2)
                | Inr raw \<Rightarrow> (Inr (fan_rpm_of (fan_decode raw)), close_handle s2))))"

definition atk_read_device :: "env \<Rightarrow> state \<Rightarrow> int \<Rightarrow> (exn + int option) \<times> state" where
  "atk_read_device E s device_id =
     (case create_file E s of
        (False, s1) \<Rightarrow> (Inr None, s1)
      | (True, s1) \<Rightarrow>
          (case device_io_control E s1 DSTS device_id 0 of
             (None, s2) \<Rightarrow> (Inr None, close_handle s2)
           | (Some out_buf, s2) \<Rightarrow>
               (case unpack_from_i32 out_buf of
                  Inl e \<Rightarrow> (Inl e, close_handle s2)
                | Inr raw \<Rightarrow> (Inr (Some (device_decode raw)), close_handle s2))))"

definition atk_write_device :: "env \<Rightarrow> state \<Rightarrow> int \<Rightarrow> int \<Rightarrow> bool \<times> state" where
  "atk_write_device E s device_id v =
     (case create_file E s of
        (False, s1) \<Rightarrow> (False, s1)
      | (True, s1) \<Rightarrow>
          (case device_io_control E s1 DEVS device_id v of
             (None, s2) \<Rightarrow> (False, close_handle s2)
           | (Some out_buf, s2) \<Rightarrow> (True, close_handle s2)))"

text \<open>\<open>_atk_fan_speeds\<close>: both fans, and \<open>(None, None)\<close> if either read raises.\<close>

definition atk_fan_speeds :: "env \<Rightarrow> state \<Rightarrow> (int option \<times> int option) \<times> state" where
  "atk_fan_speeds E s =
     (case atk_read_fan E s ATK_CPU_FAN_ID of
        (Inl e, s1) \<Rightarrow> ((None, None), s1)
      | (Inr cpu, s1) \<Rightarrow>
          (case atk_read_fan E s1 ATK_GPU_FAN_ID of
             (Inl e, s2) \<Rightarrow> ((None, None), s2)
           | (Inr gpu, s2) \<Rightarrow> ((cpu, gpu), s2)))"

section \<open>The mode cache\<close>

text \<open>\<open>str.lower\<close> on ASCII text, the alphabet of every mode name.\<close>

definition lower_char :: "char \<Rightarrow> char" where
  "lower_char c =
     (case map_of (zip ''ABCDEFGHIJKLMNOPQRSTUVWXYZ'' ''abcdefghijklmnopqrstuvwxyz'') c of
        None \<Rightarrow> c
      | Some l \<Rightarrow> l)"

definition lower :: "string \<Rightarrow> string" where
  "lower s = map lower_char s"

definition CPU_MODE_MAP :: "int \<rightharpoonup> string" where
  "CPU_MODE_MAP =
     [0 \<mapsto> ''Balanced'', 1 \<mapsto> ''Turbo'', 2 \<mapsto> ''Silent'', 3 \<mapsto> ''Performance'', 4 \<mapsto> ''Manual'']"

definition CPU_MODE_WRITE_MAP :: "string \<rightharpoonup> int" where
  "CPU_MODE_WRITE_MAP =
     [''balanced'' \<mapsto> 0, ''turbo'' \<mapsto> 1, ''silent'' \<mapsto> 2, ''performance'' \<mapsto> 3]"

definition read_cpu_mode_from_hw :: "env \<Rightarrow> state \<Rightarrow> string option \<times> state" where
  "read_cpu_mode_from_hw E s =
     (case atk_read_device E s ATK_CPU_MODE_ID of
        (Inl e, s1) \<Rightarrow> (None, s1)
      | (Inr None, s1) \<Rightarrow> (None, s1)
      | (Inr (Some val), s1) \<Rightarrow> (if val < 0 then None else CPU_MODE_MAP val, s1))"

definition load_mode_cache :: "env \<Rightarrow> state \<Rightarrow> (string option \<times> string option) \<times> state" where
  "load_mode_cache E s =
     (let s1 = log_event OpenCacheRead s
      in case mode_cache_file s1 of
           Json cpu gpu \<Rightarrow> ((cpu, gpu), s1)
         | _ \<Rightarrow> (case read_cpu_mode_from_hw E s1 of (cpu, s2) \<Rightarrow> ((cpu, None), s2)))"

definition save_mode_cache :: "env \<Rightarrow> state \<Rightarrow> string option \<Rightarrow> string option \<Rightarrow> state" where
  "save_mode_cache E s cpu gpu =
     (let s1 = log_event OpenCacheWrite s
      in case cache_write E (trace s1) of
           Written \<Rightarrow> s1\<lparr>mode_cache_file := Json cpu gpu\<rparr>
         | OpenRaised \<Rightarrow> s1
         | DumpRaised \<Rightarrow> s1\<lparr>mode_cache_file := Corrupt\<rparr>)"

text \<open>
  Line 243, run when the module is loaded:
  \<open>_cached_cpu_mode, _cached_gpu_mode = _load_mode_cache()\<close>. A process starts with the
  cache file and the history it finds.
\<close>

definition initialize :: "env \<Rightarrow> io_event list \<Rightarrow> cache_file \<Rightarrow> state" where
  "initialize E tr f =
     (case load_mode_cache E
             \<lparr>trace = tr, mode_cache_file = f, cached_cpu_mode = None, cached_gpu_mode = None\<rparr> of
        ((cpu, gpu), s) \<Rightarrow> s\<lparr>cached_cpu_mode := cpu, cached_gpu_mode := gpu\<rparr>)"

text \<open>A restart loses the two globals and keeps the file.\<close>

definition restart :: "env \<Rightarrow> state \<Rightarrow> state" where
  "restart E s = initialize E (trace s) (mode_cache_file s)"

definition get_cpu_mode :: "state \<Rightarrow> string option" where
  "get_cpu_mode s = cached_cpu_mode s"

definition set_cpu_mode :: "env \<Rightarrow> state \<Rightarrow> string \<Rightarrow> bool \<times> state" where
  "set_cpu_mode E s mode =
     (let key = lower mode
      in case CPU_MODE_WRITE_MAP key of
           None \<Rightarrow> (False, s)
         | Some val \<Rightarrow>
             (case atk_write_device E s ATK_CPU_MODE_ID val of
                (False, s1) \<Rightarrow> (False, s1)
              | (True, s1) \<Rightarrow>
                  (let s2 = s1\<lparr>cached_cpu_mode :=
                              Some (case [''balanced'' \<mapsto> ''Balanced'', ''turbo'' \<mapsto> ''Turbo'',
                                          ''silent'' \<mapsto> ''Silent'',
                                          ''performance'' \<mapsto> ''Performance''] key of
                                      None \<Rightarrow> mode | Some name \<Rightarrow> name)\<rparr>
                   in (True, save_mode_cache E s2 (cached_cpu_mode s2) (cached_gpu_mode s2)))))"

definition get_gpu_mode :: "env \<Rightarrow> state \<Rightarrow> string option \<times> state" where
  "get_gpu_mode E s =
     (case cached_gpu_mode s of
        Some m \<Rightarrow> (Some m, s)
      | None \<Rightarrow>
          (case atk_read_device E s ATK_GPU_ECO_ID of
             (Inl e, s1) \<Rightarrow> (None, s1)
           | (Inr eco, s1) \<Rightarrow>
               (case atk_read_device E s1 ATK_GPU_MUX_ID of
                  (Inl e, s2) \<Rightarrow> (None, s2)
                | (Inr mux, s2) \<Rightarrow>
                    (if eco = None \<and> mux = None then None
                     else if mux = Some 0 then Some ''Ultimate''
                     else if eco = Some 1 then Some ''Eco''
                     else Some ''Standard'', s2))))"

definition set_gpu_mode :: "env \<Rightarrow> state \<Rightarrow> string \<Rightarrow> bool \<times> state" where
  "set_gpu_mode E s mode =
     (let key = lower mode
      in case (if key = ''eco'' then Some (atk_write_device E s ATK_GPU_ECO_ID 1)
               else if key = ''standard'' then Some (atk_write_device E s ATK_GPU_ECO_ID 0)
               else None) of
           None \<Rightarrow> (False, s)
         | Some (False, s1) \<Rightarrow> (False, s1)
         | Some (True, s1) \<Rightarrow>
             (let s2 = s1\<lparr>cached_gpu_mode :=
                         Some (case [''eco'' \<mapsto> ''Eco'', ''standard'' \<mapsto> ''Standard''] key of
                                 None \<Rightarrow> mode | Some name \<Rightarrow> name)\<rparr>
              in (True, save_mode_cache E s2 (cached_cpu_mode s2) (cached_gpu_mode s2))))"

section \<open>The mode endpoint\<close>

record ModeSetRequest =
  cpu_mode :: "string option"
  gpu_mode :: "string option"

record PerformanceModes =
  pm_cpu_mode :: "string option"
  pm_gpu_mode :: "string option"

text \<open>
  The four messages \<open>set_modes\<close> collects, each with the requested name:
  \<^item> \<open>InvalidCpuMode\<close>: "Invalid cpu\_mode '...'. Valid: Silent, Balanced, Turbo, Performance";
  \<^item> \<open>CpuWriteFailed\<close>: "Failed to set CPU mode '...' (ATK write failed)";
  \<^item> \<open>InvalidGpuMode\<close>: "Invalid gpu\_mode '...'. Valid: Eco, Standard (Ultimate requires reboot)";
  \<^item> \<open>GpuWriteFailed\<close>: "Failed to set GPU mode '...' (ATK write failed)".
\<close>

datatype mode_error =
    InvalidCpuMode string
  | CpuWriteFailed string
  | InvalidGpuMode string
  | GpuWriteFailed string

text \<open>
  \<open>HTTPException(status_code, detail)\<close>: status 501 off Windows, status 400 with the
  collected messages.
\<close>

datatype detail = OnlyWindows | Errors "mode_error list"

datatype http_exception = HTTPException nat detail

definition set_modes ::
  "env \<Rightarrow> state \<Rightarrow> ModeSetRequest \<Rightarrow> (http_exception + PerformanceModes) \<times> state" where
  "set_modes E s req =
     (if \<not> os_nt E then (Inl (HTTPException 501 OnlyWindows), s)
      else
        (case (case cpu_mode req of
                 None \<Rightarrow> ([], s)
               | Some m \<Rightarrow>
                   (if CPU_MODE_WRITE_MAP (lower m) = None then ([InvalidCpuMode m], s)
                    else (case set_cpu_mode E s m of
                            (False, s') \<Rightarrow> ([CpuWriteFailed m], s')
                          | (True, s') \<Rightarrow> ([], s')))) of
           (errors1, s1) \<Rightarrow>
             (case (case gpu_mode req of
                      None \<Rightarrow> (errors1, s1)
                    | Some m \<Rightarrow>
                        (if lower m \<noteq> ''eco'' \<and> lower m \<noteq> ''standard''
                         then (errors1 @ [InvalidGpuMode m], s1)
                         else (case set_gpu_mode E s1 m of
                                 (False, s') \<Rightarrow> (errors1 @ [GpuWriteFailed m], s')
                               | (True, s') \<Rightarrow> (errors1, s')))) of
                (errors, s2) \<Rightarrow>
                  (if errors \<noteq> [] then (Inl (HTTPException 400 (Errors errors)), s2)
                   else (case get_gpu_mode E s2 of
                           (gpu, s3) \<Rightarrow>
                             (Inr \<lparr>pm_cpu_mode = get_cpu_mode s2, pm_gpu_mode = gpu\<rparr>, s3))))))"

section \<open>Binary64 arithmetic of the fan percentage\<close>

text \<open>
  \<open>round(rpm / FAN_MAX_RPM * 100, 1)\<close> is three binary64 operations: the true division of
  two integers, a multiplication and the rounding to one decimal. Each returns the
  binary64 number nearest to the exact result, ties to even. The model covers the normal
  range of binary64 (no overflow, no subnormal numbers), where every value of this
  computation lies.
\<close>

function bit_length :: "int \<Rightarrow> nat" where
  "bit_length n = (if n \<le> 0 then 0 else Suc (bit_length (n div 2)))"
  by pat_completeness auto
termination
  by (relation "measure nat") auto

declare bit_length.simps [simp del]

definition float_val :: "float \<Rightarrow> rat" where
  "float_val x =
     (case x of (m, e) \<Rightarrow>
        if e \<ge> 0 then of_int (m * 2 ^ nat e) else of_int m / of_int (2 ^ nat (- e)))"

text \<open>The integer nearest to \<open>n / d\<close> for \<open>d > 0\<close>, ties to even.\<close>

definition round_half_even :: "int \<Rightarrow> int \<Rightarrow> int" where
  "round_half_even n d =
     (let q = n div d; r = n mod d
      in if 2 * r < d then q else if 2 * r > d then q + 1 else if even q then q else q + 1)"

text \<open>The exponent \<open>k\<close> with \<open>2 ^ k \<le> n / d < 2 ^ (k + 1)\<close>, for positive \<open>n\<close> and \<open>d\<close>.\<close>

definition ilog2 :: "int \<Rightarrow> int \<Rightarrow> int" where
  "ilog2 n d =
     (let k = int (bit_length n) - int (bit_length d)
      in if d * 2 ^ nat k \<le> n * 2 ^ nat (- k) then k else k - 1)"

text \<open>The binary64 number nearest to \<open>n / d\<close> for \<open>d > 0\<close>: a mantissa of 53 bits.\<close>

definition fl64 :: "int \<Rightarrow> int \<Rightarrow> float" where
  "fl64 n d =
     (if n = 0 then (0, 0)
      else (let e = ilog2 \<bar>n\<bar> d - 52
            in (sgn n * round_half_even (\<bar>n\<bar> * 2 ^ nat (- e)) (d * 2 ^ nat e), e)))"

text \<open>
  \<open>a / b\<close> on two Python integers with a positive divisor; the only divisor of the
  program is the constant \<open>FAN_MAX_RPM\<close>.
\<close>

definition py_truediv :: "int \<Rightarrow> int \<Rightarrow> float" where
  "py_truediv a b = fl64 a b"

text \<open>\<open>x * c\<close> for a float \<open>x\<close> and an integer constant \<open>c\<close>.\<close>

definition py_mul_int :: "float \<Rightarrow> int \<Rightarrow> float" where
  "py_mul_int x c = (case x of (m, e) \<Rightarrow> fl64 (m * c * 2 ^ nat e) (2 ^ nat (- e)))"

text \<open>
  \<open>round(x, 1)\<close>: the exact value of \<open>x\<close> is rounded to one decimal, ties to even, and
  the decimal is converted back to the nearest binary64 number.
\<close>

definition py_round1 :: "float \<Rightarrow> float" where
  "py_round1 x =
     (case x of (m, e) \<Rightarrow> fl64 (round_half_even (m * 10 * 2 ^ nat e) (2 ^ nat (- e))) 10)"

text \<open>The expression of lines 564 and 565 for a fan speed that is present.\<close>

definition fan_percent :: "int \<Rightarrow> float" where
  "fan_percent rpm = py_round1 (py_mul_int (py_truediv rpm FAN_MAX_RPM) 100)"

section \<open>The thermal snapshot\<close>

record ThermalStats =
  cpu_package_temp_celsius :: "float option"
  cpu_core_avg_celsius :: "float option"
  cpu_core_max_celsius :: "float option"
  cpu_fan_rpm :: "int option"
  cpu_fan_percent :: "float option"
  gpu_core_temp_celsius :: "float option"
  gpu_hotspot_celsius :: "float option"
  gpu_fan_rpm :: "int option"
  gpu_fan_percent :: "float option"

definition get_thermal_stats :: "env \<Rightarrow> state \<Rightarrow> ThermalStats \<times> state" where
  "get_thermal_stats E s =
     (if os_nt E then
        (case lhm_cpu_sensors E of
           (pkg_temp, core_avg, core_max, lhm_cpu_fan) \<Rightarrow>
        (case lhm_gpu_sensors E of
           (gpu_core, gpu_hot, lhm_gpu_fan, lhm_gpu_pct) \<Rightarrow>
        (case atk_fan_speeds E s of
           ((cpu_rpm, gpu_rpm), s1) \<Rightarrow>
             (\<lparr>cpu_package_temp_celsius = pkg_temp,
               cpu_core_avg_celsius = core_avg,
               cpu_core_max_celsius = core_max,
               cpu_fan_rpm = cpu_rpm,
               cpu_fan_percent =
                 (case cpu_rpm of None \<Rightarrow> None | Some rpm \<Rightarrow> Some (fan_percent rpm)),
               gpu_core_temp_celsius =
                 (case gpu_core of
                    None \<Rightarrow> (case gpu_stats_nvidia E of (nvml_temp, nvml_fan) \<Rightarrow> nvml_temp)
                  | Some t \<Rightarrow> Some t),
               gpu_hotspot_celsius = gpu_hot,
               gpu_fan_rpm = gpu_rpm,
               gpu_fan_percent =
                 (case gpu_rpm of None \<Rightarrow> None | Some rpm \<Rightarrow> Some (fan_percent rpm))\<rparr>, s1))))
      else
        (case gpu_stats_nvidia E of
           (gpu_core, gpu_fan_pct) \<Rightarrow>
             (\<lparr>cpu_package_temp_celsius = cpu_temp_linux E,
               cpu_core_avg_celsius = None,
               cpu_core_max_celsius = None,
               cpu_fan_rpm = cpu_fan_linux E,
               cpu_fan_percent = None,
               gpu_core_temp_celsius = gpu_core,
               gpu_hotspot_celsius = None,
               gpu_fan_rpm = None,
               gpu_fan_percent = gpu_fan_pct\<rparr>, s)))"

section \<open>Sequences of calls\<close>

text \<open>
  What the routes do between two writes is a sequence of calls of the functions above,
  each on the state the one before has left.
\<close>

datatype call =
    GetCpuMode
  | GetGpuMode
  | SetCpuMode string
  | SetGpuMode string
  | GetThermalStats

fun step :: "env \<Rightarrow> state \<Rightarrow> call \<Rightarrow> state" where
  "step E s GetCpuMode = s"
| "step E s GetGpuMode = snd (get_gpu_mode E s)"
| "step E s (SetCpuMode m) = snd (set_cpu_mode E s m)"
| "step E s (SetGpuMode m) = snd (set_gpu_mode E s m)"
| "step E s GetThermalStats = snd (get_thermal_stats E s)"

fun run :: "env \<Rightarrow> state \<Rightarrow> call list \<Rightarrow> state" where
  "run E s [] = s"
| "run E s (c # cs) = run E (step E s c) cs"

text \<open>No call of the sequence is a CPU mode write that succeeds.\<close>

fun no_cpu_write :: "env \<Rightarrow> state \<Rightarrow> call list \<Rightarrow> bool" where
  "no_cpu_write E s [] = True"
| "no_cpu_write E s (SetCpuMode m # cs) =
     (\<not> fst (set_cpu_mode E s m) \<and> no_cpu_write E (step E s (SetCpuMode m)) cs)"
| "no_cpu_write E s (c # cs) = no_cpu_write E (step E s c) cs"

text \<open>No call of the sequence is a GPU mode write that succeeds.\<close>

fun no_gpu_write :: "env \<Rightarrow> state \<Rightarrow> call list \<Rightarrow> bool" where
  "no_gpu_write E s [] = True"
| "no_gpu_write E s (SetGpuMode m # cs) =
     (\<not> fst (set_gpu_mode E s m) \<and> no_gpu_write E (step E s (SetGpuMode m)) cs)"
| "no_gpu_write E s (c # cs) = no_gpu_write E (step E s c) cs"

text \<open>The two globals and the cache file are the same in both states.\<close>

definition same_modes :: "state \<Rightarrow> state \<Rightarrow> bool" where
  "same_modes s s' =
     (cached_cpu_mode s' = cached_cpu_mode s \<and> cached_gpu_mode s' = cached_gpu_mode s
      \<and> mode_cache_file s' = mode_cache_file s)"

section \<open>Test fixtures\<close>

text \<open>
  A Windows machine whose driver answers every call the same way: whether the device
  opens, what a transfer returns and how the write of the cache file ends. The vendor
  library reports a GPU core temperature of 47.0 and NVML one of 48.0.
\<close>

definition example_env :: "bool \<Rightarrow> byte list option \<Rightarrow> write_outcome \<Rightarrow> env" where
  "example_env opens reply outcome =
     \<lparr>os_nt = True,
      create_file_ok = (\<lambda>tr. opens),
      device_reply = (\<lambda>tr. reply),
      cache_write = (\<lambda>tr. outcome),
      lhm_cpu_sensors = (Some (123, - 1), Some (58, 0), Some (66, 0), None),
      lhm_gpu_sensors = (Some (47, 0), Some (113, - 1), None, None),
      gpu_stats_nvidia = (Some (48, 0), None),
      cpu_temp_linux = None,
      cpu_fan_linux = None\<rparr>"

text \<open>The state of a process that has found no cache file and read nothing yet.\<close>

definition fresh :: state where
  "fresh = \<lparr>trace = [], mode_cache_file = Missing, cached_cpu_mode = None, cached_gpu_mode = None\<rparr>"

text \<open>
  The check made on each fan speed the driver path can return: the binary64 computation
  gives the binary64 number nearest to the exact quotient rounded to one decimal, and
  the number is positive and at most 151.5.
\<close>

definition percent_ok :: "int \<Rightarrow> bool" where
  "percent_ok v =
     (let p = fan_percent (v * 100)
      in p = fl64 (round_half_even (v * 100 * 1000) FAN_MAX_RPM) 10
         \<and> 0 < float_val p \<and> float_val p \<le> 1515 / 10)"

section \<open>Properties of the decoding\<close>

lemma fill_buffer_length: "length (fill_buffer out_buf written) = length out_buf"
  by (simp add: fill_buffer_def min_def)

lemma unpack_from_i32_len16:
  assumes "length out_buf = 16"
  shows "\<exists>raw. unpack_from_i32 out_buf = Inr raw \<and> - (2 ^ 31) \<le> raw \<and> raw < 2 ^ 31"
proof -
  from assms obtain b0 b1 b2 b3 rest where buf: "out_buf = b0 # b1 # b2 # b3 # rest"
    by (cases out_buf rule: unpack_from_i32.cases) auto
  define u where "u = uint b0 + 2 ^ 8 * uint b1 + 2 ^ 16 * uint b2 + 2 ^ 24 * uint b3"
  have "0 \<le> uint b0" "uint b0 < 256" "0 \<le> uint b1" "uint b1 < 256"
       "0 \<le> uint b2" "uint b2 < 256" "0 \<le> uint b3" "uint b3 < 256"
    using uint_lt2p [of b0] uint_lt2p [of b1] uint_lt2p [of b2] uint_lt2p [of b3] by simp_all
  then have u: "0 \<le> u" "u < 2 ^ 32"
    unfolding u_def by simp_all
  have "unpack_from_i32 out_buf = Inr (if u \<ge> 2 ^ 31 then u - 2 ^ 32 else u)"
    by (simp add: buf u_def Let_def)
  moreover have "- (2 ^ 31) \<le> (if u \<ge> 2 ^ 31 then u - 2 ^ 32 else u)"
    using u by simp
  moreover have "(if u \<ge> 2 ^ 31 then u - 2 ^ 32 else u) < 2 ^ 31"
    using u by simp
  ultimately show ?thesis by blast
qed

lemma fan_decode_eq: "fan_decode raw = (if 65536 \<le> raw then raw - 65536 else raw)"
  by (simp add: fan_decode_def Let_def)

text \<open>
  C1, as the claim states it, fails. The reply whose first four bytes are FD FF 00 00 holds
  the raw integer 65536 - 3, and the fan decode returns 65533 for it, not -3. The reply
  00 00 00 80 holds the least 32-bit integer, which decodes to itself, far below -65536.
  The raw integer 131077 decodes to 65541, and decoding that again gives 5.
\<close>

theorem fan_decode_claim_counterexample:
  "unpack_from_i32 ([0xFD, 0xFF, 0, 0] @ replicate 12 0) = Inr (65536 - 3)
   \<and> fan_decode (65536 - 3) = 65533
   \<and> fan_decode (65536 - 3) \<noteq> - 3
   \<and> unpack_from_i32 ([0, 0, 0, 0x80] @ replicate 12 0) = Inr (- 2147483648)
   \<and> fan_decode (- 2147483648) < - 65536
   \<and> fan_decode (fan_decode 131077) \<noteq> fan_decode 131077"
  by (simp add: fan_decode_def)

text \<open>
  C1, amended. Decoding a reply of 16 bytes never raises: the buffer holds a raw signed
  32-bit integer, and the fan decode (subtract 65536; if the result is negative, add
  65536 back) returns \<open>raw - 65536\<close> for \<open>raw \<ge> 65536\<close> and \<open>raw\<close> itself otherwise.
  The decoded value lies between \<open>- 2 ^ 31\<close> and \<open>2 ^ 31 - 65537\<close>; it lies in
  \<open>[-65536, 65535]\<close> exactly when \<open>-65536 \<le> raw < 131072\<close>, and decoding it again
  leaves it unchanged exactly when \<open>raw < 131072\<close>. Raw 65536 + 3 decodes to 3, raw
  65536 - 3 decodes to 65533, raw 0 decodes to 0.
\<close>

theorem fan_decode_total:
  assumes "length out_buf = 16"
  shows "(\<exists>raw. unpack_from_i32 out_buf = Inr raw
            \<and> - (2 ^ 31) \<le> raw \<and> raw < 2 ^ 31
            \<and> fan_decode raw = (if 65536 \<le> raw then raw - 65536 else raw)
            \<and> - (2 ^ 31) \<le> fan_decode raw \<and> fan_decode raw \<le> 2 ^ 31 - 65537
            \<and> ((- 65536 \<le> fan_decode raw \<and> fan_decode raw \<le> 65535)
                 = (- 65536 \<le> raw \<and> raw < 131072))
            \<and> ((fan_decode (fan_decode raw) = fan_decode raw) = (raw < 131072)))
         \<and> fan_decode (65536 + 3) = 3
         \<and> fan_decode (65536 - 3) = 65533
         \<and> fan_decode 0 = 0"
proof -
  from unpack_from_i32_len16 [OF assms] obtain raw where
    raw: "unpack_from_i32 out_buf = Inr raw" "- (2 ^ 31) \<le> raw" "raw < 2 ^ 31"
    by blast
  have "- (2 ^ 31) \<le> fan_decode raw \<and> fan_decode raw \<le> 2 ^ 31 - 65537"
    using raw(2,3) by (simp add: fan_decode_eq)
  moreover have "(- 65536 \<le> fan_decode raw \<and> fan_decode raw \<le> 65535)
                 = (- 65536 \<le> raw \<and> raw < 131072)"
    by (auto simp add: fan_decode_eq)
  moreover have "(fan_decode (fan_decode raw) = fan_decode raw) = (raw < 131072)"
    by (simp add: fan_decode_eq)
  ultimately have "\<exists>raw. unpack_from_i32 out_buf = Inr raw
            \<and> - (2 ^ 31) \<le> raw \<and> raw < 2 ^ 31
            \<and> fan_decode raw = (if 65536 \<le> raw then raw - 65536 else raw)
            \<and> - (2 ^ 31) \<le> fan_decode raw \<and> fan_decode raw \<le> 2 ^ 31 - 65537
            \<and> ((- 65536 \<le> fan_decode raw \<and> fan_decode raw \<le> 65535)
                 = (- 65536 \<le> raw \<and> raw < 131072))
            \<and> ((fan_decode (fan_decode raw) = fan_decode raw) = (raw < 131072))"
    using raw fan_decode_eq [of raw] by blast
  then show ?thesis
    by (simp add: fan_decode_def)
qed

theorem fan_decode_total_witness:
  "length ([0x03, 0x00, 0x01, 0x00] @ replicate 12 (0 :: byte)) = 16
   \<and> unpack_from_i32 ([0x03, 0x00, 0x01, 0x00] @ replicate 12 0) = Inr 65539
   \<and> fan_decode 65539 = 3
   \<and> fan_decode (fan_decode 65539) = fan_decode 65539"
  using fan_decode_total [of "[0x03, 0x00, 0x01, 0x00] @ replicate 12 0"]
  by (simp add: fan_decode_def)

text \<open>
  C3, as the claim states it, fails at the raw integer 0: the register read returns
  -65536 and the fan read decodes 0.
\<close>

theorem device_decode_claim_counterexample:
  "device_decode 0 = - 65536 \<and> fan_decode 0 = 0 \<and> device_decode 0 \<noteq> fan_decode 0"
  by (simp add: device_decode_def fan_decode_def)

text \<open>
  C3, amended. The register read (CPU mode, GPU eco flag, GPU mux flag) only subtracts
  65536 and keeps a negative result; the fan read adds 65536 back to a negative result.
  The two decodes agree exactly on the raw integers from 65536 up, and the fan decode is
  the register decode followed by the re-wrap. Both reads make the same calls on the
  driver, and the fan read returns what the register read returns, re-wrapped and
  range checked.
\<close>

theorem device_decode_vs_fan_decode:
  "(device_decode raw = fan_decode raw) = (65536 \<le> raw)
   \<and> fan_decode raw
       = (if device_decode raw < 0 then device_decode raw + 65536 else device_decode raw)
   \<and> snd (atk_read_fan E s device_id) = snd (atk_read_device E s device_id)
   \<and> fst (atk_read_fan E s device_id)
       = (case fst (atk_read_device E s device_id) of
            Inl e \<Rightarrow> Inl e
          | Inr None \<Rightarrow> Inr None
          | Inr (Some v) \<Rightarrow> Inr (fan_rpm_of (if v < 0 then v + 65536 else v)))"
  by (simp add: device_decode_def fan_decode_def Let_def atk_read_fan_def atk_read_device_def
      split: prod.splits bool.splits option.splits sum.splits)

section \<open>Properties of the fan read and the snapshot\<close>

lemmas kernel32_defs =
  create_file_def device_io_control_def close_handle_def log_event_def
  create_string_buffer_def fill_buffer_def

lemma device_io_control_len:
  "fst (device_io_control E s m d v) = Some out_buf \<Longrightarrow> length out_buf = 16"
  by (auto simp: device_io_control_def Let_def create_string_buffer_def fill_buffer_length)

lemma atk_read_fan_cases:
  "fst (atk_read_fan E s d) = Inr None
   \<or> (\<exists>v. 1 \<le> v \<and> v \<le> 100 \<and> fst (atk_read_fan E s d) = Inr (Some (v * 100)))"
proof (cases "create_file E s")
  case (Pair ok s1)
  show ?thesis
  proof (cases ok)
    case False
    with Pair show ?thesis by (simp add: atk_read_fan_def)
  next
    case True
    show ?thesis
    proof (cases "device_io_control E s1 DSTS d 0")
      case io: (Pair r s2)
      show ?thesis
      proof (cases r)
        case None
        with Pair True io show ?thesis by (simp add: atk_read_fan_def)
      next
        case (Some out_buf)
        with io have "length out_buf = 16"
          using device_io_control_len [of E s1 DSTS d 0 out_buf] by simp
        then obtain raw where raw: "unpack_from_i32 out_buf = Inr raw"
          using unpack_from_i32_len16 by blast
        have res: "fst (atk_read_fan E s d) = Inr (fan_rpm_of (fan_decode raw))"
          using Pair True io Some raw by (simp add: atk_read_fan_def)
        show ?thesis
        proof (cases "fan_decode raw \<le> 0 \<or> fan_decode raw > 100")
          case True
          with res show ?thesis by (simp add: fan_rpm_of_def)
        next
          case False
          with res have "1 \<le> fan_decode raw \<and> fan_decode raw \<le> 100
            \<and> fst (atk_read_fan E s d) = Inr (Some (fan_decode raw * 100))"
            by (simp add: fan_rpm_of_def)
          then show ?thesis by blast
        qed
      qed
    qed
  qed
qed

lemma atk_fan_speeds_cases:
  "\<exists>cpu gpu. fst (atk_fan_speeds E s) = (cpu, gpu)
     \<and> (cpu = None \<or> (\<exists>v. 1 \<le> v \<and> v \<le> 100 \<and> cpu = Some (v * 100)))
     \<and> (gpu = None \<or> (\<exists>v. 1 \<le> v \<and> v \<le> 100 \<and> gpu = Some (v * 100)))"
proof -
  obtain r1 s1 where r1: "atk_read_fan E s ATK_CPU_FAN_ID = (r1, s1)"
    by (cases "atk_read_fan E s ATK_CPU_FAN_ID")
  obtain r2 s2 where r2: "atk_read_fan E s1 ATK_GPU_FAN_ID = (r2, s2)"
    by (cases "atk_read_fan E s1 ATK_GPU_FAN_ID")
  from atk_read_fan_cases [of E s ATK_CPU_FAN_ID] r1
  have c1: "r1 = Inr None \<or> (\<exists>v. 1 \<le> v \<and> v \<le> 100 \<and> r1 = Inr (Some (v * 100)))"
    by simp
  from atk_read_fan_cases [of E s1 ATK_GPU_FAN_ID] r2
  have c2: "r2 = Inr None \<or> (\<exists>v. 1 \<le> v \<and> v \<le> 100 \<and> r2 = Inr (Some (v * 100)))"
    by simp
  from c1 c2 show ?thesis
    by (auto simp: atk_fan_speeds_def r1 r2)
qed

lemma atk_fan_speeds_unavailable:
  assumes "\<forall>tr. \<not> create_file_ok E tr"
  shows "fst (atk_fan_speeds E s) = (None, None)"
  using assms by (simp add: atk_fan_speeds_def atk_read_fan_def create_file_def)

lemma snapshot_nt:
  assumes "os_nt E"
  shows "fst (get_thermal_stats E s) =
     \<lparr>cpu_package_temp_celsius = fst (lhm_cpu_sensors E),
       cpu_core_avg_celsius = fst (snd (lhm_cpu_sensors E)),
       cpu_core_max_celsius = fst (snd (snd (lhm_cpu_sensors E))),
       cpu_fan_rpm = fst (fst (atk_fan_speeds E s)),
       cpu_fan_percent = map_option fan_percent (fst (fst (atk_fan_speeds E s))),
       gpu_core_temp_celsius =
         (case fst (lhm_gpu_sensors E) of None \<Rightarrow> fst (gpu_stats_nvidia E) | Some t \<Rightarrow> Some t),
       gpu_hotspot_celsius = fst (snd (lhm_gpu_sensors E)),
       gpu_fan_rpm = snd (fst (atk_fan_speeds E s)),
       gpu_fan_percent = map_option fan_percent (snd (fst (atk_fan_speeds E s)))\<rparr>"
  using assms
  by (simp add: get_thermal_stats_def split: prod.splits option.splits)

text \<open>
  C4. On the driver platform the GPU core temperature of the snapshot is the vendor
  library's value whenever the vendor library reports one, whatever NVML reports; the
  NVML temperature is used only when the vendor library reports none. No arithmetic is
  done on the two values.
\<close>

theorem gpu_core_temp_precedence:
  assumes "os_nt E"
  shows "(\<forall>a b. fst (lhm_gpu_sensors E) = Some a \<and> fst (gpu_stats_nvidia E) = Some b
            \<longrightarrow> gpu_core_temp_celsius (fst (get_thermal_stats E s)) = Some a)
       \<and> (\<forall>a. fst (lhm_gpu_sensors E) = Some a
            \<longrightarrow> gpu_core_temp_celsius (fst (get_thermal_stats E s)) = Some a)
       \<and> (fst (lhm_gpu_sensors E) = None
            \<longrightarrow> gpu_core_temp_celsius (fst (get_thermal_stats E s)) = fst (gpu_stats_nvidia E))"
  by (simp add: snapshot_nt [OF assms])

theorem gpu_core_temp_precedence_witness:
  "os_nt (example_env True None Written)
   \<and> fst (lhm_gpu_sensors (example_env True None Written)) = Some (47, 0)
   \<and> fst (gpu_stats_nvidia (example_env True None Written)) = Some (48, 0)
   \<and> gpu_core_temp_celsius (fst (get_thermal_stats (example_env True None Written) fresh))
       = Some (47, 0)"
  using gpu_core_temp_precedence [of "example_env True None Written" fresh]
  by (simp add: example_env_def)

text \<open>
  C8. When the device cannot be opened, the snapshot of the driver platform is still
  built, with every field: the two fan speeds and the two fan percentages are absent,
  and the temperatures are the ones the vendor library and NVML report.
\<close>

theorem snapshot_without_driver:
  assumes "os_nt E" and "\<forall>tr. \<not> create_file_ok E tr"
  shows "fst (get_thermal_stats E s) =
     \<lparr>cpu_package_temp_celsius = fst (lhm_cpu_sensors E),
       cpu_core_avg_celsius = fst (snd (lhm_cpu_sensors E)),
       cpu_core_max_celsius = fst (snd (snd (lhm_cpu_sensors E))),
       cpu_fan_rpm = None,
       cpu_fan_percent = None,
       gpu_core_temp_celsius =
         (case fst (lhm_gpu_sensors E) of None \<Rightarrow> fst (gpu_stats_nvidia E) | Some t \<Rightarrow> Some t),
       gpu_hotspot_celsius = fst (snd (lhm_gpu_sensors E)),
       gpu_fan_rpm = None,
       gpu_fan_percent = None\<rparr>"
  by (simp add: snapshot_nt [OF assms(1)] atk_fan_speeds_unavailable [OF assms(2)])

theorem snapshot_without_driver_witness:
  "os_nt (example_env False None Written)
   \<and> (\<forall>tr. \<not> create_file_ok (example_env False None Written) tr)
   \<and> fst (get_thermal_stats (example_env False None Written) fresh) =
     \<lparr>cpu_package_temp_celsius = Some (123, - 1),
       cpu_core_avg_celsius = Some (58, 0),
       cpu_core_max_celsius = Some (66, 0),
       cpu_fan_rpm = None,
       cpu_fan_percent = None,
       gpu_core_temp_celsius = Some (47, 0),
       gpu_hotspot_celsius = Some (113, - 1),
       gpu_fan_rpm = None,
       gpu_fan_percent = None\<rparr>"
  using snapshot_without_driver [of "example_env False None Written" fresh]
  by (simp add: example_env_def)

section \<open>Properties of the mode store\<close>

lemma atk_read_device_cases:
  "fst (atk_read_device E s d) = Inr None
   \<or> (\<exists>v. - (2 ^ 31) - 65536 \<le> v \<and> v < 2 ^ 31 - 65536 \<and> fst (atk_read_device E s d) = Inr (Some v))"
proof (cases "create_file E s")
  case (Pair ok s1)
  show ?thesis
  proof (cases ok)
    case False
    with Pair show ?thesis by (simp add: atk_read_device_def)
  next
    case True
    show ?thesis
    proof (cases "device_io_control E s1 DSTS d 0")
      case io: (Pair r s2)
      show ?thesis
      proof (cases r)
        case None
        with Pair True io show ?thesis by (simp add: atk_read_device_def)
      next
        case (Some out_buf)
        with io have "length out_buf = 16"
          using device_io_control_len [of E s1 DSTS d 0 out_buf] by simp
        then obtain raw where raw: "unpack_from_i32 out_buf = Inr raw"
          "- (2 ^ 31) \<le> raw" "raw < 2 ^ 31"
          using unpack_from_i32_len16 by blast
        have "fst (atk_read_device E s d) = Inr (Some (device_decode raw))"
          using Pair True io Some raw by (simp add: atk_read_device_def)
        moreover have "- (2 ^ 31) - 65536 \<le> device_decode raw" "device_decode raw < 2 ^ 31 - 65536"
          using raw(2,3) by (simp_all add: device_decode_def)
        ultimately show ?thesis by blast
      qed
    qed
  qed
qed

lemma atk_read_device_not_raised: "fst (atk_read_device E s d) \<noteq> Inl e"
  using atk_read_device_cases [of E s d] by auto

lemma same_modes_refl: "same_modes s s"
  by (simp add: same_modes_def)

lemma same_modes_trans: "same_modes s s1 \<Longrightarrow> same_modes s1 s2 \<Longrightarrow> same_modes s s2"
  by (simp add: same_modes_def)

lemma atk_read_device_same_modes: "same_modes s (snd (atk_read_device E s d))"
  by (simp add: atk_read_device_def kernel32_defs same_modes_def Let_def
      split: prod.splits bool.splits option.splits sum.splits)

lemma atk_read_fan_same_modes: "same_modes s (snd (atk_read_fan E s d))"
  by (simp add: atk_read_fan_def kernel32_defs same_modes_def Let_def
      split: prod.splits bool.splits option.splits sum.splits)

lemma atk_write_device_same_modes: "same_modes s (snd (atk_write_device E s d v))"
  by (simp add: atk_write_device_def kernel32_defs same_modes_def Let_def
      split: prod.splits bool.splits option.splits sum.splits)

lemma atk_fan_speeds_same_modes: "same_modes s (snd (atk_fan_speeds E s))"
proof -
  obtain r1 s1 where r1: "atk_read_fan E s ATK_CPU_FAN_ID = (r1, s1)"
    by (cases "atk_read_fan E s ATK_CPU_FAN_ID")
  obtain r2 s2 where r2: "atk_read_fan E s1 ATK_GPU_FAN_ID = (r2, s2)"
    by (cases "atk_read_fan E s1 ATK_GPU_FAN_ID")
  have "same_modes s s1" "same_modes s1 s2"
    using atk_read_fan_same_modes [of s E ATK_CPU_FAN_ID]
      atk_read_fan_same_modes [of s1 E ATK_GPU_FAN_ID] r1 r2 by simp_all
  then show ?thesis
    using same_modes_trans [of s s1 s2]
    by (auto simp: atk_fan_speeds_def r1 r2 split: sum.splits)
qed

lemma get_thermal_stats_same_modes: "same_modes s (snd (get_thermal_stats E s))"
  using atk_fan_speeds_same_modes [of s E]
  by (auto simp add: get_thermal_stats_def same_modes_refl split: prod.splits)

lemma get_gpu_mode_same_modes: "same_modes s (snd (get_gpu_mode E s))"
proof (cases "cached_gpu_mode s")
  case (Some m)
  then show ?thesis by (simp add: get_gpu_mode_def same_modes_refl)
next
  case None
  obtain r1 s1 where r1: "atk_read_device E s ATK_GPU_ECO_ID = (r1, s1)"
    by (cases "atk_read_device E s ATK_GPU_ECO_ID")
  obtain r2 s2 where r2: "atk_read_device E s1 ATK_GPU_MUX_ID = (r2, s2)"
    by (cases "atk_read_device E s1 ATK_GPU_MUX_ID")
  have "same_modes s s1" "same_modes s1 s2"
    using atk_read_device_same_modes [of s E ATK_GPU_ECO_ID]
      atk_read_device_same_modes [of s1 E ATK_GPU_MUX_ID] r1 r2 by simp_all
  then show ?thesis
    using same_modes_trans [of s s1 s2] None
    by (auto simp: get_gpu_mode_def r1 r2 split: sum.splits)
qed


lemma save_mode_cache_cached:
  "cached_cpu_mode (save_mode_cache E s c g) = cached_cpu_mode s
   \<and> cached_gpu_mode (save_mode_cache E s c g) = cached_gpu_mode s"
  by (simp add: save_mode_cache_def log_event_def Let_def split: write_outcome.splits)

lemma set_cpu_mode_failed:
  assumes "\<not> fst (set_cpu_mode E s mode)"
  shows "same_modes s (snd (set_cpu_mode E s mode))"
proof (cases "CPU_MODE_WRITE_MAP (lower mode)")
  case None
  then show ?thesis by (simp add: set_cpu_mode_def same_modes_refl)
next
  case (Some val)
  obtain ok s1 where w: "atk_write_device E s ATK_CPU_MODE_ID val = (ok, s1)"
    by (cases "atk_write_device E s ATK_CPU_MODE_ID val")
  with assms Some have "\<not> ok"
    by (auto simp: set_cpu_mode_def Let_def)
  then show ?thesis
    using Some w atk_write_device_same_modes [of s E ATK_CPU_MODE_ID val]
    by (simp add: set_cpu_mode_def)
qed

lemma set_cpu_mode_gpu_kept:
  "cached_gpu_mode (snd (set_cpu_mode E s mode)) = cached_gpu_mode s"
proof (cases "CPU_MODE_WRITE_MAP (lower mode)")
  case None
  then show ?thesis by (simp add: set_cpu_mode_def)
next
  case (Some val)
  obtain ok s1 where w: "atk_write_device E s ATK_CPU_MODE_ID val = (ok, s1)"
    by (cases "atk_write_device E s ATK_CPU_MODE_ID val")
  have "cached_gpu_mode s1 = cached_gpu_mode s"
    using w atk_write_device_same_modes [of s E ATK_CPU_MODE_ID val]
    by (simp add: same_modes_def)
  then show ?thesis
    using Some w by (cases ok) (simp_all add: set_cpu_mode_def Let_def save_mode_cache_cached)
qed

lemma set_gpu_mode_failed:
  assumes "\<not> fst (set_gpu_mode E s mode)"
  shows "same_modes s (snd (set_gpu_mode E s mode))"
proof -
  have w: "same_modes s (snd (atk_write_device E s ATK_GPU_ECO_ID v))" for v
    by (rule atk_write_device_same_modes)
  show ?thesis
    using assms w [of 1] w [of 0]
    by (auto simp: set_gpu_mode_def Let_def same_modes_refl split: if_splits prod.splits bool.splits)
qed

lemma set_gpu_mode_cpu_kept:
  "cached_cpu_mode (snd (set_gpu_mode E s mode)) = cached_cpu_mode s"
proof -
  have w: "cached_cpu_mode (snd (atk_write_device E s ATK_GPU_ECO_ID v)) = cached_cpu_mode s" for v
    using atk_write_device_same_modes [of s E ATK_GPU_ECO_ID v] by (simp add: same_modes_def)
  show ?thesis
    using w [of 1] w [of 0]
    by (auto simp: set_gpu_mode_def Let_def save_mode_cache_cached split: if_splits prod.splits bool.splits)
qed

lemma run_keeps_cpu_mode:
  "no_cpu_write E s cs \<Longrightarrow> cached_cpu_mode (run E s cs) = cached_cpu_mode s"
proof (induction cs arbitrary: s)
  case Nil
  then show ?case by simp
next
  case (Cons c cs)
  show ?case
  proof (cases c)
    case GetCpuMode
    with Cons show ?thesis by simp
  next
    case GetGpuMode
    with Cons show ?thesis
      using get_gpu_mode_same_modes [of s E] by (simp add: same_modes_def)
  next
    case (SetCpuMode m)
    with Cons show ?thesis
      using set_cpu_mode_failed [of E s m] by (simp add: same_modes_def)
  next
    case (SetGpuMode m)
    with Cons show ?thesis
      by (simp add: set_gpu_mode_cpu_kept)
  next
    case GetThermalStats
    with Cons show ?thesis
      using get_thermal_stats_same_modes [of s E] by (simp add: same_modes_def)
  qed
qed

lemma run_keeps_gpu_mode:
  "no_gpu_write E s cs \<Longrightarrow> cached_gpu_mode (run E s cs) = cached_gpu_mode s"
proof (induction cs arbitrary: s)
  case Nil
  then show ?case by simp
next
  case (Cons c cs)
  show ?case
  proof (cases c)
    case GetCpuMode
    with Cons show ?thesis by simp
  next
    case GetGpuMode
    with Cons show ?thesis
      using get_gpu_mode_same_modes [of s E] by (simp add: same_modes_def)
  next
    case (SetCpuMode m)
    with Cons show ?thesis
      by (simp add: set_cpu_mode_gpu_kept)
  next
    case (SetGpuMode m)
    with Cons show ?thesis
      using set_gpu_mode_failed [of E s m] by (simp add: same_modes_def)
  next
    case GetThermalStats
    with Cons show ?thesis
      using get_thermal_stats_same_modes [of s E] by (simp add: same_modes_def)
  qed
qed

lemmas example_defs = example_env_def fresh_def

lemmas mode_defs =
  set_cpu_mode_def set_gpu_mode_def get_gpu_mode_def get_cpu_mode_def save_mode_cache_def
  load_mode_cache_def read_cpu_mode_from_hw_def initialize_def restart_def
  atk_write_device_def atk_read_device_def lower_def lower_char_def
  CPU_MODE_WRITE_MAP_def CPU_MODE_MAP_def device_decode_def

lemma save_mode_cache_trace:
  "trace (save_mode_cache E s c g) = trace s @ [OpenCacheWrite]"
  by (simp add: save_mode_cache_def log_event_def Let_def split: write_outcome.splits)

lemma save_mode_cache_written:
  "cache_write E (trace (save_mode_cache E s c g)) = Written
   \<Longrightarrow> mode_cache_file (save_mode_cache E s c g) = Json c g"
  by (simp add: save_mode_cache_trace)
     (simp add: save_mode_cache_def log_event_def Let_def)

lemma restart_from_record:
  assumes "mode_cache_file s = Json c g"
  shows "cached_cpu_mode (restart E s) = c \<and> cached_gpu_mode (restart E s) = g
         \<and> mode_cache_file (restart E s) = Json c g
         \<and> trace (restart E s) = trace s @ [OpenCacheRead]"
  using assms
  by (simp add: restart_def initialize_def load_mode_cache_def log_event_def Let_def)

lemma set_cpu_mode_success:
  assumes "fst (set_cpu_mode E s mode)"
  shows "\<exists>val name s1.
           CPU_MODE_WRITE_MAP (lower mode) = Some val
           \<and> [''balanced'' \<mapsto> ''Balanced'', ''turbo'' \<mapsto> ''Turbo'', ''silent'' \<mapsto> ''Silent'',
               ''performance'' \<mapsto> ''Performance''] (lower mode) = Some name
           \<and> atk_write_device E s ATK_CPU_MODE_ID val = (True, s1)
           \<and> snd (set_cpu_mode E s mode)
               = save_mode_cache E (s1\<lparr>cached_cpu_mode := Some name\<rparr>) (Some name) (cached_gpu_mode s)"
proof (cases "CPU_MODE_WRITE_MAP (lower mode)")
  case None
  with assms show ?thesis by (simp add: set_cpu_mode_def)
next
  case (Some val)
  obtain ok s1 where w: "atk_write_device E s ATK_CPU_MODE_ID val = (ok, s1)"
    by (cases "atk_write_device E s ATK_CPU_MODE_ID val")
  with assms Some have ok: "ok"
    by (cases ok) (simp_all add: set_cpu_mode_def)
  have g: "cached_gpu_mode s1 = cached_gpu_mode s"
    using w atk_write_device_same_modes [of s E ATK_CPU_MODE_ID val]
    by (simp add: same_modes_def)
  from Some obtain name where name:
    "[''balanced'' \<mapsto> ''Balanced'', ''turbo'' \<mapsto> ''Turbo'', ''silent'' \<mapsto> ''Silent'',
      ''performance'' \<mapsto> ''Performance''] (lower mode) = Some name"
    by (auto simp: CPU_MODE_WRITE_MAP_def split: if_splits)
  have "snd (set_cpu_mode E s mode)
          = save_mode_cache E (s1\<lparr>cached_cpu_mode := Some name\<rparr>) (Some name) (cached_gpu_mode s)"
    using Some w ok name g by (simp add: set_cpu_mode_def Let_def)
  with Some name w ok show ?thesis
    by (intro exI [of _ val] exI [of _ name] exI [of _ s1]) simp
qed

lemma set_gpu_mode_success:
  assumes "fst (set_gpu_mode E s mode)"
  shows "\<exists>val name s1.
           [''eco'' \<mapsto> ''Eco'', ''standard'' \<mapsto> ''Standard''] (lower mode) = Some name
           \<and> atk_write_device E s ATK_GPU_ECO_ID val = (True, s1)
           \<and> snd (set_gpu_mode E s mode)
               = save_mode_cache E (s1\<lparr>cached_gpu_mode := Some name\<rparr>) (cached_cpu_mode s) (Some name)"
proof -
  have keep: "cached_cpu_mode (snd (atk_write_device E s ATK_GPU_ECO_ID v)) = cached_cpu_mode s" for v
    using atk_write_device_same_modes [of s E ATK_GPU_ECO_ID v] by (simp add: same_modes_def)
  consider (eco) "lower mode = ''eco''" | (std) "lower mode = ''standard''"
    | (other) "lower mode \<noteq> ''eco''" "lower mode \<noteq> ''standard''"
    by blast
  then show ?thesis
  proof cases
    case eco
    obtain ok s1 where w: "atk_write_device E s ATK_GPU_ECO_ID 1 = (ok, s1)"
      by (cases "atk_write_device E s ATK_GPU_ECO_ID 1")
    with assms eco have ok: "ok"
      by (cases ok) (simp_all add: set_gpu_mode_def)
    have "snd (set_gpu_mode E s mode)
          = save_mode_cache E (s1\<lparr>cached_gpu_mode := Some ''Eco''\<rparr>) (cached_cpu_mode s) (Some ''Eco'')"
      using eco w ok keep [of 1] by (simp add: set_gpu_mode_def Let_def)
    with eco w ok show ?thesis by auto
  next
    case std
    obtain ok s1 where w: "atk_write_device E s ATK_GPU_ECO_ID 0 = (ok, s1)"
      by (cases "atk_write_device E s ATK_GPU_ECO_ID 0")
    with assms std have ok: "ok"
      by (cases ok) (simp_all add: set_gpu_mode_def)
    have "snd (set_gpu_mode E s mode)
          = save_mode_cache E (s1\<lparr>cached_gpu_mode := Some ''Standard''\<rparr>) (cached_cpu_mode s)
              (Some ''Standard'')"
      using std w ok keep [of 0] by (simp add: set_gpu_mode_def Let_def)
    with std w ok show ?thesis by auto
  next
    case other
    with assms show ?thesis by (simp add: set_gpu_mode_def)
  qed
qed

lemma get_gpu_mode_cached:
  "cached_gpu_mode s = Some name \<Longrightarrow> get_gpu_mode E s = (Some name, s)"
  by (simp add: get_gpu_mode_def)


lemma cpu_write_remembered:
  assumes ok: "fst (set_cpu_mode E s mode)"
  shows "\<exists>name. [''balanced'' \<mapsto> ''Balanced'', ''turbo'' \<mapsto> ''Turbo'', ''silent'' \<mapsto> ''Silent'',
                  ''performance'' \<mapsto> ''Performance''] (lower mode) = Some name
           \<and> get_cpu_mode (snd (set_cpu_mode E s mode)) = Some name
           \<and> (\<forall>cs. no_cpu_write E (snd (set_cpu_mode E s mode)) cs
                 \<longrightarrow> get_cpu_mode (run E (snd (set_cpu_mode E s mode)) cs) = Some name)
           \<and> (cache_write E (trace (snd (set_cpu_mode E s mode))) = Written
                 \<longrightarrow> mode_cache_file (snd (set_cpu_mode E s mode)) = Json (Some name) (cached_gpu_mode s)
                   \<and> get_cpu_mode (restart E (snd (set_cpu_mode E s mode))) = Some name
                   \<and> trace (restart E (snd (set_cpu_mode E s mode)))
                       = trace (snd (set_cpu_mode E s mode)) @ [OpenCacheRead])"
proof -
  from set_cpu_mode_success [OF ok] obtain val name s1 where
    name: "[''balanced'' \<mapsto> ''Balanced'', ''turbo'' \<mapsto> ''Turbo'', ''silent'' \<mapsto> ''Silent'',
            ''performance'' \<mapsto> ''Performance''] (lower mode) = Some name"
    and s': "snd (set_cpu_mode E s mode)
               = save_mode_cache E (s1\<lparr>cached_cpu_mode := Some name\<rparr>) (Some name) (cached_gpu_mode s)"
    by blast
  define s' where "s' = snd (set_cpu_mode E s mode)"
  have cached: "cached_cpu_mode s' = Some name"
    unfolding s'_def s' by (simp add: save_mode_cache_cached)
  have kept: "get_cpu_mode (run E s' cs) = Some name" if "no_cpu_write E s' cs" for cs
    using run_keeps_cpu_mode [OF that] cached by (simp add: get_cpu_mode_def)
  have persisted: "mode_cache_file s' = Json (Some name) (cached_gpu_mode s)
      \<and> get_cpu_mode (restart E s') = Some name
      \<and> trace (restart E s') = trace s' @ [OpenCacheRead]"
    if w: "cache_write E (trace s') = Written"
  proof -
    have "mode_cache_file s' = Json (Some name) (cached_gpu_mode s)"
      using w unfolding s'_def s' by (rule save_mode_cache_written)
    then show ?thesis
      using restart_from_record [of s' "Some name" "cached_gpu_mode s" E]
      by (simp add: get_cpu_mode_def)
  qed
  show ?thesis
    using name cached kept persisted unfolding s'_def
    by (intro exI [of _ name]) (simp add: get_cpu_mode_def)
qed

lemma gpu_write_remembered:
  assumes ok: "fst (set_gpu_mode E s mode)"
  shows "\<exists>name. [''eco'' \<mapsto> ''Eco'', ''standard'' \<mapsto> ''Standard''] (lower mode) = Some name
           \<and> get_gpu_mode E (snd (set_gpu_mode E s mode)) = (Some name, snd (set_gpu_mode E s mode))
           \<and> (\<forall>cs. no_gpu_write E (snd (set_gpu_mode E s mode)) cs
                 \<longrightarrow> get_gpu_mode E (run E (snd (set_gpu_mode E s mode)) cs)
                       = (Some name, run E (snd (set_gpu_mode E s mode)) cs))
           \<and> (cache_write E (trace (snd (set_gpu_mode E s mode))) = Written
                 \<longrightarrow> mode_cache_file (snd (set_gpu_mode E s mode)) = Json (cached_cpu_mode s) (Some name)
                   \<and> get_gpu_mode E (restart E (snd (set_gpu_mode E s mode)))
                       = (Some name, restart E (snd (set_gpu_mode E s mode)))
                   \<and> trace (restart E (snd (set_gpu_mode E s mode)))
                       = trace (snd (set_gpu_mode E s mode)) @ [OpenCacheRead])"
proof -
  from set_gpu_mode_success [OF ok] obtain val name s1 where
    name: "[''eco'' \<mapsto> ''Eco'', ''standard'' \<mapsto> ''Standard''] (lower mode) = Some name"
    and s': "snd (set_gpu_mode E s mode)
               = save_mode_cache E (s1\<lparr>cached_gpu_mode := Some name\<rparr>) (cached_cpu_mode s) (Some name)"
    by blast
  define s' where "s' = snd (set_gpu_mode E s mode)"
  have cached: "cached_gpu_mode s' = Some name"
    unfolding s'_def s' by (simp add: save_mode_cache_cached)
  have kept: "get_gpu_mode E (run E s' cs) = (Some name, run E s' cs)"
    if "no_gpu_write E s' cs" for cs
    using run_keeps_gpu_mode [OF that] cached by (simp add: get_gpu_mode_cached)
  have persisted: "mode_cache_file s' = Json (cached_cpu_mode s) (Some name)
      \<and> get_gpu_mode E (restart E s') = (Some name, restart E s')
      \<and> trace (restart E s') = trace s' @ [OpenCacheRead]"
    if w: "cache_write E (trace s') = Written"
  proof -
    have "mode_cache_file s' = Json (cached_cpu_mode s) (Some name)"
      using w unfolding s'_def s' by (rule save_mode_cache_written)
    then show ?thesis
      using restart_from_record [of s' "cached_cpu_mode s" "Some name" E]
      by (simp add: get_gpu_mode_cached)
  qed
  show ?thesis
    using name cached kept persisted unfolding s'_def
    by (intro exI [of _ name]) (simp add: get_gpu_mode_cached)
qed

lemmas thermal_defs =
  get_thermal_stats_def atk_fan_speeds_def atk_read_fan_def fan_decode_def fan_rpm_of_def


text \<open>
  C2, as the claim states it, fails when the cache file cannot be written:
  \<open>_save_mode_cache\<close> swallows the exception. Here the driver accepts the write of
  "turbo" and the memory holds Turbo, but \<open>open\<close> raises, no file exists afterwards,
  and the restarted process reads the hardware, which reports 3, and starts in
  Performance.
\<close>

theorem persisted_mode_claim_counterexample:
  "fst (set_cpu_mode (example_env True (Some [3, 0, 1, 0]) OpenRaised) fresh ''turbo'')
   \<and> get_cpu_mode (snd (set_cpu_mode (example_env True (Some [3, 0, 1, 0]) OpenRaised) fresh ''turbo''))
       = Some ''Turbo''
   \<and> mode_cache_file (snd (set_cpu_mode (example_env True (Some [3, 0, 1, 0]) OpenRaised) fresh ''turbo''))
       = Missing
   \<and> get_cpu_mode (restart (example_env True (Some [3, 0, 1, 0]) OpenRaised)
        (snd (set_cpu_mode (example_env True (Some [3, 0, 1, 0]) OpenRaised) fresh ''turbo'')))
       = Some ''Performance''
   \<and> trace (restart (example_env True (Some [3, 0, 1, 0]) OpenRaised)
        (snd (set_cpu_mode (example_env True (Some [3, 0, 1, 0]) OpenRaised) fresh ''turbo'')))
       = [CreateFileW, DeviceIoControl DEVS 8 ATK_CPU_MODE_ID 1, CloseHandle, OpenCacheWrite,
          OpenCacheRead, CreateFileW, DeviceIoControl DSTS 8 ATK_CPU_MODE_ID 0, CloseHandle]"
  by (simp add: mode_defs example_defs kernel32_defs Let_def)

text \<open>
  C2, amended. After a CPU or GPU mode write that succeeds, the memory holds the
  requested mode in its canonical capitalisation; \<open>get_cpu_mode\<close> reads only the state,
  \<open>get_gpu_mode\<close> returns the value and leaves the state, trace included, as it is; the
  value stays through every sequence of calls with no further successful write of that
  mode. If the write of the cache file goes through, the file holds the record, and a
  restarted process loads the same mode from it with no call on the driver: the only
  new event is the opening of the file.
\<close>

theorem successful_write_is_remembered:
  "(fst (set_cpu_mode E s cmode) \<longrightarrow>
      (\<exists>name. [''balanced'' \<mapsto> ''Balanced'', ''turbo'' \<mapsto> ''Turbo'', ''silent'' \<mapsto> ''Silent'',
                ''performance'' \<mapsto> ''Performance''] (lower cmode) = Some name
         \<and> get_cpu_mode (snd (set_cpu_mode E s cmode)) = Some name
         \<and> (\<forall>cs. no_cpu_write E (snd (set_cpu_mode E s cmode)) cs
               \<longrightarrow> get_cpu_mode (run E (snd (set_cpu_mode E s cmode)) cs) = Some name)
         \<and> (cache_write E (trace (snd (set_cpu_mode E s cmode))) = Written
               \<longrightarrow> mode_cache_file (snd (set_cpu_mode E s cmode))
                     = Json (Some name) (cached_gpu_mode s)
                 \<and> get_cpu_mode (restart E (snd (set_cpu_mode E s cmode))) = Some name
                 \<and> trace (restart E (snd (set_cpu_mode E s cmode)))
                     = trace (snd (set_cpu_mode E s cmode)) @ [OpenCacheRead])))
   \<and> (fst (set_gpu_mode E s gmode) \<longrightarrow>
      (\<exists>name. [''eco'' \<mapsto> ''Eco'', ''standard'' \<mapsto> ''Standard''] (lower gmode) = Some name
         \<and> get_gpu_mode E (snd (set_gpu_mode E s gmode))
             = (Some name, snd (set_gpu_mode E s gmode))
         \<and> (\<forall>cs. no_gpu_write E (snd (set_gpu_mode E s gmode)) cs
               \<longrightarrow> get_gpu_mode E (run E (snd (set_gpu_mode E s gmode)) cs)
                     = (Some name, run E (snd (set_gpu_mode E s gmode)) cs))
         \<and> (cache_write E (trace (snd (set_gpu_mode E s gmode))) = Written
               \<longrightarrow> mode_cache_file (snd (set_gpu_mode E s gmode))
                     = Json (cached_cpu_mode s) (Some name)
                 \<and> get_gpu_mode E (restart E (snd (set_gpu_mode E s gmode)))
                     = (Some name, restart E (snd (set_gpu_mode E s gmode)))
                 \<and> trace (restart E (snd (set_gpu_mode E s gmode)))
                     = trace (snd (set_gpu_mode E s gmode)) @ [OpenCacheRead])))"
  using cpu_write_remembered [of E s cmode] gpu_write_remembered [of E s gmode]
  by blast

theorem successful_write_is_remembered_witness:
  "fst (set_cpu_mode (example_env True (Some [0, 0, 0, 0]) Written) fresh ''TURBO'')
   \<and> get_cpu_mode (snd (set_cpu_mode (example_env True (Some [0, 0, 0, 0]) Written) fresh ''TURBO''))
       = Some ''Turbo''
   \<and> no_cpu_write (example_env True (Some [0, 0, 0, 0]) Written)
        (snd (set_cpu_mode (example_env True (Some [0, 0, 0, 0]) Written) fresh ''TURBO''))
        [GetGpuMode, SetCpuMode ''quiet'', GetThermalStats, SetGpuMode ''eco'']
   \<and> get_cpu_mode (run (example_env True (Some [0, 0, 0, 0]) Written)
        (snd (set_cpu_mode (example_env True (Some [0, 0, 0, 0]) Written) fresh ''TURBO''))
        [GetGpuMode, SetCpuMode ''quiet'', GetThermalStats, SetGpuMode ''eco'']) = Some ''Turbo''
   \<and> cache_write (example_env True (Some [0, 0, 0, 0]) Written)
        (trace (snd (set_cpu_mode (example_env True (Some [0, 0, 0, 0]) Written) fresh ''TURBO''))) = Written
   \<and> mode_cache_file (snd (set_cpu_mode (example_env True (Some [0, 0, 0, 0]) Written) fresh ''TURBO''))
       = Json (Some ''Turbo'') None
   \<and> get_cpu_mode (restart (example_env True (Some [0, 0, 0, 0]) Written)
        (snd (set_cpu_mode (example_env True (Some [0, 0, 0, 0]) Written) fresh ''TURBO''))) = Some ''Turbo''
   \<and> fst (set_gpu_mode (example_env True (Some [0, 0, 0, 0]) Written) fresh ''eco'')
   \<and> fst (get_gpu_mode (example_env True (Some [0, 0, 0, 0]) Written)
        (snd (set_gpu_mode (example_env True (Some [0, 0, 0, 0]) Written) fresh ''eco''))) = Some ''Eco''
   \<and> no_gpu_write (example_env True (Some [0, 0, 0, 0]) Written)
        (snd (set_gpu_mode (example_env True (Some [0, 0, 0, 0]) Written) fresh ''eco''))
        [GetGpuMode, SetGpuMode ''ultimate'', SetCpuMode ''silent'']
   \<and> cache_write (example_env True (Some [0, 0, 0, 0]) Written)
        (trace (snd (set_gpu_mode (example_env True (Some [0, 0, 0, 0]) Written) fresh ''eco''))) = Written
   \<and> mode_cache_file (snd (set_gpu_mode (example_env True (Some [0, 0, 0, 0]) Written) fresh ''eco''))
       = Json None (Some ''Eco'')"
  using successful_write_is_remembered
    [of "example_env True (Some [0, 0, 0, 0]) Written" fresh "''TURBO''" "''eco''"]
  by (simp add: mode_defs example_defs kernel32_defs thermal_defs Let_def)

section \<open>Properties of the mode writes and of the GPU mode detection\<close>





lemma atk_read_device_trace:
  "\<exists>evs. trace (snd (atk_read_device E s d)) = trace s @ CreateFileW # evs"
  by (simp add: atk_read_device_def kernel32_defs Let_def
      split: prod.splits bool.splits option.splits sum.splits)

text \<open>
  C7, as the claim states it, fails: the code has no error of its own for "ultimate". The
  route answers "ultimate" with the message it gives every GPU name other than eco and
  standard, here "bogus", and \<open>set_gpu_mode\<close> returns for "ultimate" the \<open>False\<close> it
  returns for "eco" when the driver refuses the write.
\<close>

theorem requires_reboot_claim_counterexample:
  "set_modes (example_env True (Some [0, 0, 1, 0]) Written) fresh
       \<lparr>cpu_mode = None, gpu_mode = Some ''ultimate''\<rparr>
     = (Inl (HTTPException 400 (Errors [InvalidGpuMode ''ultimate''])), fresh)
   \<and> set_modes (example_env True (Some [0, 0, 1, 0]) Written) fresh
       \<lparr>cpu_mode = None, gpu_mode = Some ''bogus''\<rparr>
     = (Inl (HTTPException 400 (Errors [InvalidGpuMode ''bogus''])), fresh)
   \<and> set_gpu_mode (example_env True (Some [0, 0, 1, 0]) Written) fresh ''ultimate'' = (False, fresh)
   \<and> set_gpu_mode (example_env True (Some [0, 0, 1, 0]) Written) fresh ''bogus'' = (False, fresh)
   \<and> fst (set_gpu_mode (example_env True None Written) fresh ''eco'') = False
   \<and> fst (set_gpu_mode (example_env True None Written) fresh ''ultimate'')
       = fst (set_gpu_mode (example_env True None Written) fresh ''eco'')"
  by (simp add: mode_defs example_defs kernel32_defs set_modes_def Let_def)

text \<open>
  C7, amended. A GPU mode "ultimate" is refused whatever the hardware would answer, in
  the way every GPU name other than eco and standard is refused: \<open>set_gpu_mode\<close>
  returns \<open>False\<close>, the value it also returns when the driver refuses a write, and the
  route answers with status 400 and the message of an invalid GPU mode, which names the
  reboot. A CPU name outside the four writable modes is refused with the message of an
  invalid CPU mode. On both paths the state comes back as it was, trace included: no
  call reaches the driver.
\<close>

theorem rejected_modes_touch_nothing:
  "set_gpu_mode E s ''ultimate'' = (False, s)
   \<and> set_modes E s \<lparr>cpu_mode = None, gpu_mode = Some ''ultimate''\<rparr>
       = (Inl (if os_nt E then HTTPException 400 (Errors [InvalidGpuMode ''ultimate''])
               else HTTPException 501 OnlyWindows), s)
   \<and> (lower gmode \<noteq> ''eco'' \<and> lower gmode \<noteq> ''standard''
        \<longrightarrow> set_gpu_mode E s gmode = (False, s)
          \<and> fst (set_gpu_mode E s gmode) = fst (set_gpu_mode E s ''ultimate'')
          \<and> set_modes E s \<lparr>cpu_mode = None, gpu_mode = Some gmode\<rparr>
              = (Inl (if os_nt E then HTTPException 400 (Errors [InvalidGpuMode gmode])
                      else HTTPException 501 OnlyWindows), s))
   \<and> (\<not> fst (atk_write_device E s ATK_GPU_ECO_ID 1)
        \<longrightarrow> fst (set_gpu_mode E s ''eco'') = fst (set_gpu_mode E s ''ultimate''))
   \<and> (CPU_MODE_WRITE_MAP (lower cmode) = None
        \<longrightarrow> set_cpu_mode E s cmode = (False, s)
          \<and> set_modes E s \<lparr>cpu_mode = Some cmode, gpu_mode = None\<rparr>
              = (Inl (if os_nt E then HTTPException 400 (Errors [InvalidCpuMode cmode])
                      else HTTPException 501 OnlyWindows), s))"
proof -
  have u: "lower ''ultimate'' = ''ultimate''" and e: "lower ''eco'' = ''eco''"
    by (simp_all add: lower_def lower_char_def)
  have w: "\<not> fst (atk_write_device E s ATK_GPU_ECO_ID 1)
        \<longrightarrow> fst (set_gpu_mode E s ''eco'') = fst (set_gpu_mode E s ''ultimate'')"
    by (cases "atk_write_device E s ATK_GPU_ECO_ID 1") (simp add: u e set_gpu_mode_def)
  show ?thesis
    using w by (simp add: u set_gpu_mode_def set_cpu_mode_def set_modes_def)
qed

theorem rejected_modes_touch_nothing_witness:
  "lower ''Ultimate'' \<noteq> ''eco'' \<and> lower ''Ultimate'' \<noteq> ''standard''
   \<and> set_gpu_mode (example_env True None Written) fresh ''Ultimate'' = (False, fresh)
   \<and> set_modes (example_env True None Written) fresh
        \<lparr>cpu_mode = None, gpu_mode = Some ''Ultimate''\<rparr>
       = (Inl (HTTPException 400 (Errors [InvalidGpuMode ''Ultimate''])), fresh)
   \<and> \<not> fst (atk_write_device (example_env True None Written) fresh ATK_GPU_ECO_ID 1)
   \<and> fst (set_gpu_mode (example_env True None Written) fresh ''eco'')
       = fst (set_gpu_mode (example_env True None Written) fresh ''ultimate'')
   \<and> CPU_MODE_WRITE_MAP (lower ''invalid'') = None
   \<and> set_cpu_mode (example_env True None Written) fresh ''invalid'' = (False, fresh)
   \<and> set_modes (example_env True None Written) fresh
        \<lparr>cpu_mode = Some ''invalid'', gpu_mode = None\<rparr>
       = (Inl (HTTPException 400 (Errors [InvalidCpuMode ''invalid''])), fresh)
   \<and> trace fresh = []"
  using rejected_modes_touch_nothing
    [of "example_env True None Written" fresh "''Ultimate''" "''invalid''"]
  by (simp add: example_defs kernel32_defs atk_write_device_def lower_def lower_char_def
      CPU_MODE_WRITE_MAP_def)

text \<open>
  C9, as the claim states it, fails. The detected mode is not stored: with the cached GPU
  mode unknown, a first call reads the two registers and returns Eco, the cached mode is
  still unknown afterwards, and a second call reads the two registers again. When neither
  register can be read, the mode is absent, not Standard.
\<close>

theorem gpu_mode_claim_counterexample:
  "cached_gpu_mode fresh = None
   \<and> fst (get_gpu_mode (example_env True (Some [1, 0, 1, 0]) Written) fresh) = Some ''Eco''
   \<and> cached_gpu_mode (snd (get_gpu_mode (example_env True (Some [1, 0, 1, 0]) Written) fresh)) = None
   \<and> trace (snd (get_gpu_mode (example_env True (Some [1, 0, 1, 0]) Written) fresh))
       = [CreateFileW, DeviceIoControl DSTS 8 ATK_GPU_ECO_ID 0, CloseHandle,
          CreateFileW, DeviceIoControl DSTS 8 ATK_GPU_MUX_ID 0, CloseHandle]
   \<and> trace (snd (get_gpu_mode (example_env True (Some [1, 0, 1, 0]) Written)
        (snd (get_gpu_mode (example_env True (Some [1, 0, 1, 0]) Written) fresh))))
       = [CreateFileW, DeviceIoControl DSTS 8 ATK_GPU_ECO_ID 0, CloseHandle,
          CreateFileW, DeviceIoControl DSTS 8 ATK_GPU_MUX_ID 0, CloseHandle,
          CreateFileW, DeviceIoControl DSTS 8 ATK_GPU_ECO_ID 0, CloseHandle,
          CreateFileW, DeviceIoControl DSTS 8 ATK_GPU_MUX_ID 0, CloseHandle]
   \<and> fst (get_gpu_mode (example_env False None Written) fresh) = None
   \<and> fst (get_gpu_mode (example_env False None Written) fresh) \<noteq> Some ''Standard''"
  by (simp add: mode_defs example_defs kernel32_defs Let_def)

text \<open>
  C9, amended. While the cached GPU mode is unknown, every call of \<open>get_gpu_mode\<close> reads
  the eco flag and then the mux flag (neither read raises), returns no mode when both
  reads give nothing and otherwise Ultimate if the mux flag decodes to 0, else Eco if the
  eco flag decodes to 1, else Standard, and leaves the cached mode unknown: the next
  call reads the registers again.
\<close>

theorem gpu_mode_detection:
  assumes "cached_gpu_mode s = None"
  shows "\<exists>eco mux s1 s2.
           atk_read_device E s ATK_GPU_ECO_ID = (Inr eco, s1)
           \<and> atk_read_device E s1 ATK_GPU_MUX_ID = (Inr mux, s2)
           \<and> get_gpu_mode E s =
               (if eco = None \<and> mux = None then None
                else if mux = Some 0 then Some ''Ultimate''
                else if eco = Some 1 then Some ''Eco''
                else Some ''Standard'', s2)
           \<and> cached_gpu_mode s2 = None
           \<and> (\<exists>evs. trace s2 = trace s @ CreateFileW # evs)"
proof -
  obtain r1 s1 where r1: "atk_read_device E s ATK_GPU_ECO_ID = (r1, s1)"
    by (cases "atk_read_device E s ATK_GPU_ECO_ID")
  obtain r2 s2 where r2: "atk_read_device E s1 ATK_GPU_MUX_ID = (r2, s2)"
    by (cases "atk_read_device E s1 ATK_GPU_MUX_ID")
  obtain eco where eco: "r1 = Inr eco"
    using atk_read_device_not_raised [of E s ATK_GPU_ECO_ID] r1 by (cases r1) auto
  obtain mux where mux: "r2 = Inr mux"
    using atk_read_device_not_raised [of E s1 ATK_GPU_MUX_ID] r2 by (cases r2) auto
  have res: "get_gpu_mode E s =
               (if eco = None \<and> mux = None then None
                else if mux = Some 0 then Some ''Ultimate''
                else if eco = Some 1 then Some ''Eco''
                else Some ''Standard'', s2)"
    using assms r1 r2 eco mux by (simp add: get_gpu_mode_def)
  have "same_modes s (snd (get_gpu_mode E s))"
    by (rule get_gpu_mode_same_modes)
  with res assms have none: "cached_gpu_mode s2 = None"
    by (simp add: same_modes_def)
  from atk_read_device_trace [of E s ATK_GPU_ECO_ID] r1
  obtain evs1 where t1: "trace s1 = trace s @ CreateFileW # evs1" by auto
  from atk_read_device_trace [of E s1 ATK_GPU_MUX_ID] r2
  obtain evs2 where t2: "trace s2 = trace s1 @ CreateFileW # evs2" by auto
  have tr: "\<exists>evs. trace s2 = trace s @ CreateFileW # evs"
    using t1 t2 by simp
  show ?thesis
    using r1 r2 eco mux res none tr by blast
qed

theorem gpu_mode_detection_witness:
  "cached_gpu_mode fresh = None
   \<and> atk_read_device (example_env True (Some [0, 0, 1, 0]) Written) fresh ATK_GPU_ECO_ID
       = (Inr (Some 0),
          fresh\<lparr>trace := [CreateFileW, DeviceIoControl DSTS 8 ATK_GPU_ECO_ID 0, CloseHandle]\<rparr>)
   \<and> fst (get_gpu_mode (example_env True (Some [0, 0, 1, 0]) Written) fresh) = Some ''Ultimate''
   \<and> cached_gpu_mode (snd (get_gpu_mode (example_env True (Some [0, 0, 1, 0]) Written) fresh)) = None"
  using gpu_mode_detection [of fresh "example_env True (Some [0, 0, 1, 0]) Written"]
  by (simp add: mode_defs example_defs kernel32_defs Let_def)

section \<open>The model of binary64 rounds to nearest, ties to even\<close>

text \<open>
  For positive \<open>n\<close> and \<open>d\<close>, \<open>fl64 n d\<close> has a mantissa of 53 bits and lies within half
  a unit in the last place of \<open>n / d\<close>; the inequalities are those of the quotient,
  multiplied through by the denominator. The rounding of a tie gives an even integer.
\<close>

lemma bit_length_bounds:
  "0 < n \<Longrightarrow> 2 ^ (bit_length n - 1) \<le> n \<and> n < 2 ^ bit_length n"
proof (induction n rule: bit_length.induct)
  case (1 n)
  show ?case
  proof (cases "n div 2 = 0")
    case True
    with "1.prems" have "n = 1" by presburger
    then show ?thesis
      by (simp add: bit_length.simps [of 1] bit_length.simps [of 0])
  next
    case False
    with "1.prems" have pos: "0 < n div 2" by presburger
    have bl: "bit_length n = Suc (bit_length (n div 2))"
      using "1.prems" by (subst bit_length.simps) simp
    from "1.IH" "1.prems" pos
    have ih: "2 ^ (bit_length (n div 2) - 1) \<le> n div 2" "n div 2 < 2 ^ bit_length (n div 2)"
      by simp_all
    have bpos: "0 < bit_length (n div 2)"
      using pos by (subst bit_length.simps) simp
    then have e: "(2::int) ^ bit_length (n div 2) = 2 * 2 ^ (bit_length (n div 2) - 1)"
      by (cases "bit_length (n div 2)") simp_all
    have "2 * (n div 2) \<le> n" "n < 2 * (n div 2) + 2" by presburger+
    with ih e show ?thesis
      by (simp add: bl)
  qed
qed

lemma round_half_even_nearest:
  assumes "0 < d"
  shows "2 * \<bar>round_half_even n d * d - n\<bar> \<le> d"
proof -
  define q r where "q = n div d" and "r = n mod d"
  have n: "n = q * d + r" and r: "0 \<le> r" "r < d"
    using assms by (simp_all add: q_def r_def)
  have "round_half_even n d = q \<and> 2 * r \<le> d \<or> round_half_even n d = q + 1 \<and> d \<le> 2 * r"
    by (auto simp: round_half_even_def Let_def q_def r_def)
  then show ?thesis
    using n r by (auto simp: algebra_simps)
qed


lemma round_half_even_tie:
  assumes "0 < d" and "2 * \<bar>round_half_even n d * d - n\<bar> = d"
  shows "even (round_half_even n d)"
proof -
  define q r where "q = n div d" and "r = n mod d"
  have n: "n = q * d + r" and r: "0 \<le> r" "r < d"
    using assms(1) by (simp_all add: q_def r_def)
  consider (below) "2 * r < d" | (above) "d < 2 * r" | (tie) "2 * r = d" by linarith
  then show ?thesis
  proof cases
    case below
    then have "round_half_even n d = q"
      by (simp add: round_half_even_def Let_def q_def r_def)
    with assms(2) n r below show ?thesis by (simp add: algebra_simps)
  next
    case above
    then have "round_half_even n d = q + 1"
      by (simp add: round_half_even_def Let_def q_def r_def)
    with assms(2) n r above show ?thesis by (simp add: algebra_simps)
  next
    case tie
    then show ?thesis
      by (simp add: round_half_even_def Let_def q_def r_def)
  qed
qed

lemma ilog2_bounds:
  assumes n: "0 < n" and d: "0 < d"
  shows "d * 2 ^ nat (ilog2 n d) \<le> n * 2 ^ nat (- ilog2 n d)
         \<and> n * 2 ^ nat (- ilog2 n d) < 2 * (d * 2 ^ nat (ilog2 n d))"
proof -
  from n have "0 < bit_length n" by (subst bit_length.simps) simp
  then obtain a where a: "bit_length n = Suc a" by (cases "bit_length n") auto
  from d have "0 < bit_length d" by (subst bit_length.simps) simp
  then obtain b where b: "bit_length d = Suc b" by (cases "bit_length d") auto
  from bit_length_bounds [OF n] a have nb: "2 ^ a \<le> n" "n < 2 * 2 ^ a" by simp_all
  from bit_length_bounds [OF d] b have db: "2 ^ b \<le> d" "d < 2 * 2 ^ b" by simp_all
  have k0: "int (bit_length n) - int (bit_length d) = int a - int b"
    by (simp add: a b)
  show ?thesis
  proof (cases "b \<le> a")
    case True
    define c where "c = a - b"
    define P :: int where "P = 2 ^ c"
    have P: "0 < P" by (simp add: P_def)
    have ab: "(2::int) ^ a = 2 ^ b * P"
      using True by (simp add: P_def c_def flip: power_add)
    have kc: "int a - int b = int c" using True by (simp add: c_def)
    have lo: "2 ^ b * P \<le> d * P" using db(1) P by (simp add: mult_right_mono)
    show ?thesis
    proof (cases "d * P \<le> n")
      case le: True
      then have k: "ilog2 n d = int c"
        by (simp add: ilog2_def Let_def k0 kc P_def)
      from nb(2) ab lo have "n < 2 * (d * P)" by simp
      with le show ?thesis by (simp add: k P_def)
    next
      case gt: False
      then have k: "ilog2 n d = int c - 1"
        by (simp add: ilog2_def Let_def k0 kc P_def)
      show ?thesis
      proof (cases c)
        case 0
        then have P1: "P = 1" by (simp add: P_def)
        from db(2) ab nb(1) P1 have "d \<le> 2 * n" by simp
        moreover from gt P1 have "2 * n < 2 * d" by simp
        ultimately show ?thesis by (simp add: k 0)
      next
        case (Suc c')
        define Q :: int where "Q = 2 ^ c'"
        have Q: "0 < Q" by (simp add: Q_def)
        have PQ: "P = 2 * Q" by (simp add: P_def Q_def Suc)
        have "d * Q < (2 * 2 ^ b) * Q" using db(2) Q by (simp add: mult_strict_right_mono)
        with ab PQ nb(1) have "d * Q \<le> n" by simp
        moreover from gt PQ have "n < 2 * (d * Q)" by simp
        ultimately show ?thesis by (simp add: k Suc Q_def)
      qed
    qed
  next
    case False
    define c where "c = b - a"
    define P :: int where "P = 2 ^ c"
    have P: "0 < P" by (simp add: P_def)
    have ba: "(2::int) ^ b = 2 ^ a * P"
      using False by (simp add: P_def c_def flip: power_add)
    have kc: "int a - int b = - int c" using False by (simp add: c_def)
    have cpos: "0 < c" using False by (simp add: c_def)
    have lo: "2 ^ a * P \<le> n * P" using nb(1) P by (simp add: mult_right_mono)
    have hi: "n * P < (2 * 2 ^ a) * P" using nb(2) P by (simp add: mult_strict_right_mono)
    show ?thesis
    proof (cases "d \<le> n * P")
      case le: True
      then have k: "ilog2 n d = - int c"
        by (simp add: ilog2_def Let_def k0 kc P_def)
      from hi ba db(1) have "n * P < 2 * d" by simp
      with le show ?thesis by (simp add: k P_def)
    next
      case gt: False
      then have k: "ilog2 n d = - int c - 1"
        by (simp add: ilog2_def Let_def k0 kc P_def)
      have nk: "nat (- ilog2 n d) = Suc c" "nat (ilog2 n d) = 0" by (simp_all add: k)
      from db(2) ba lo have "d \<le> n * (2 * P)" by simp
      moreover from gt have "n * (2 * P) < 2 * d" by simp
      ultimately show ?thesis unfolding nk by (simp add: P_def)
    qed
  qed
qed

lemma fl64_scaled:
  assumes n: "0 < n" and d: "0 < d" and e: "e = ilog2 n d - 52"
  shows "2 ^ 52 * (d * 2 ^ nat e) \<le> n * 2 ^ nat (- e)
         \<and> n * 2 ^ nat (- e) < 2 ^ 53 * (d * 2 ^ nat e)"
proof -
  define k where "k = ilog2 n d"
  from ilog2_bounds [OF n d]
  have kb: "d * 2 ^ nat k \<le> n * 2 ^ nat (- k)" "n * 2 ^ nat (- k) < 2 * (d * 2 ^ nat k)"
    by (simp_all add: k_def)
  have ek: "e = k - 52" by (simp add: e k_def)
  consider (big) "52 \<le> k" | (mid) "0 \<le> k" "k < 52" | (neg) "k < 0" by linarith
  then show ?thesis
  proof cases
    case big
    then have "nat k = nat e + 52" "nat (- e) = 0" "nat (- k) = 0" by (simp_all add: ek)
    with kb show ?thesis by (simp add: power_add)
  next
    case mid
    define j where "j = nat (52 - k)"
    define Q :: int where "Q = 2 ^ j"
    have Q: "0 < Q" by (simp add: Q_def)
    have x: "nat e = 0" "nat (- e) = j" "nat (- k) = 0" using mid by (simp_all add: ek j_def)
    have "nat k + j = 52" using mid by (simp add: j_def)
    then have p: "(2::int) ^ 52 = 2 ^ nat k * Q"
      by (simp add: Q_def flip: power_add)
    from kb x have "d * 2 ^ nat k \<le> n" "n < 2 * (d * 2 ^ nat k)" by simp_all
    then have "(d * 2 ^ nat k) * Q \<le> n * Q" "n * Q < (2 * (d * 2 ^ nat k)) * Q"
      using Q by (simp_all add: mult_right_mono mult_strict_right_mono)
    then have "d * (2 ^ nat k * Q) \<le> n * Q" "n * Q < 2 * (d * (2 ^ nat k * Q))"
      by (simp_all add: mult.assoc)
    then show ?thesis
      unfolding p [symmetric] by (simp add: x Q_def)
  next
    case neg
    define j where "j = nat (- k)"
    have x: "nat e = 0" "nat (- e) = j + 52" "nat k = 0" using neg by (simp_all add: ek j_def)
    from kb x have "d \<le> n * 2 ^ j" "n * 2 ^ j < 2 * d" by (simp_all add: j_def)
    then have "d * 2 ^ 52 \<le> (n * 2 ^ j) * 2 ^ 52" "(n * 2 ^ j) * 2 ^ 52 < (2 * d) * 2 ^ 52"
      by simp_all
    then show ?thesis
      by (simp add: x power_add)
  qed
qed

lemma fl64_nearest:
  assumes n: "0 < n" and d: "0 < d" and f: "fl64 n d = (m, e)"
  shows "2 ^ 52 \<le> m \<and> m \<le> 2 ^ 53
         \<and> 2 * \<bar>m * (d * 2 ^ nat e) - n * 2 ^ nat (- e)\<bar> \<le> d * 2 ^ nat e"
proof -
  define N where "N = n * 2 ^ nat (- e)"
  define D where "D = d * 2 ^ nat e"
  have e: "e = ilog2 n d - 52"
    using f n by (auto simp add: fl64_def Let_def)
  have m: "m = round_half_even N D"
    using f n unfolding N_def D_def e by (auto simp add: fl64_def Let_def)
  have Dpos: "0 < D" using d by (simp add: D_def)
  have near: "2 * \<bar>m * D - N\<bar> \<le> D"
    unfolding m by (rule round_half_even_nearest [OF Dpos])
  have scaled: "2 ^ 52 * D \<le> N" "N < 2 ^ 53 * D"
    using fl64_scaled [OF n d e] by (simp_all add: N_def D_def)
  define X where "X = 2 ^ 52 * D"
  define Y where "Y = m * D"
  have sc: "X \<le> N" "N < 2 * X"
    using scaled by (simp_all add: X_def)
  have nr: "2 * \<bar>Y - N\<bar> \<le> D"
    using near by (simp add: Y_def)
  have lo: "2 ^ 52 \<le> m"
  proof (rule ccontr)
    assume "\<not> 2 ^ 52 \<le> m"
    then have "m \<le> 2 ^ 52 - 1" by simp
    then have "m * D \<le> (2 ^ 52 - 1) * D"
      using Dpos by (intro mult_right_mono) simp_all
    then have "Y \<le> X - D" by (simp add: algebra_simps X_def Y_def)
    with sc(1) nr Dpos show False by arith
  qed
  have hi: "m \<le> 2 ^ 53"
  proof (rule ccontr)
    assume "\<not> m \<le> 2 ^ 53"
    then have "2 ^ 53 + 1 \<le> m" by simp
    then have "(2 ^ 53 + 1) * D \<le> m * D"
      using Dpos by (intro mult_right_mono) simp_all
    then have "2 * X + D \<le> Y" by (simp add: algebra_simps X_def Y_def)
    with sc(2) nr Dpos show False by arith
  qed
  from lo hi near show ?thesis by (simp add: N_def D_def)
qed

section \<open>Properties of the fan percentage\<close>

lemma percent_ok_1_25: "list_all percent_ok [1..25]"
  by code_simp

lemma percent_ok_26_50: "list_all percent_ok [26..50]"
  by code_simp

lemma percent_ok_51_75: "list_all percent_ok [51..75]"
  by code_simp

lemma percent_ok_76_100: "list_all percent_ok [76..100]"
  by code_simp

lemma percent_ok_range:
  assumes "1 \<le> v" and "v \<le> 100"
  shows "percent_ok v"
proof -
  have mem: "v \<in> set [i..j]" if "i \<le> v" "v \<le> j" for i j
    using that by (simp only: set_upto atLeastAtMost_iff)
  from assms consider "v \<le> 25" | "26 \<le> v" "v \<le> 50" | "51 \<le> v" "v \<le> 75" | "76 \<le> v"
    by linarith
  then show ?thesis
  proof cases
    case 1
    with assms percent_ok_1_25 mem [of 1 25] show ?thesis
      unfolding list_all_iff by blast
  next
    case 2
    with percent_ok_26_50 mem [of 26 50] show ?thesis
      unfolding list_all_iff by blast
  next
    case 3
    with percent_ok_51_75 mem [of 51 75] show ?thesis
      unfolding list_all_iff by blast
  next
    case 4
    with assms percent_ok_76_100 mem [of 76 100] show ?thesis
      unfolding list_all_iff by blast
  qed
qed

text \<open>
  Two checks of the model of binary64: one tenth is the number
  \<open>3602879701896397 / 2 ^ 55\<close>, and a small integer is kept as it is.
\<close>

lemma fl64_one_tenth:
  "fl64 1 10 = (7205759403792794, - 56)
   \<and> float_val (fl64 1 10) = 3602879701896397 / 2 ^ 55"
  by code_simp

lemma fl64_small_integer: "float_val (fl64 6600 1) = 6600"
  by code_simp

lemma fan_percent_3300: "float_val (fan_percent 3300) = 50"
  by code_simp

lemma fan_percent_0: "float_val (fan_percent 0) = 0"
  by code_simp

lemma fan_percent_10000: "float_val (fan_percent 10000) = 1515 / 10"
  by code_simp

lemma fan_percent_100: "float_val (fan_percent 100) = 15 / 10"
  by code_simp

lemma driver_rpm_percent:
  assumes "1 \<le> v" and "v \<le> 100"
  shows "fan_percent (v * 100) = fl64 (round_half_even (v * 100 * 1000) FAN_MAX_RPM) 10"
    and "0 < float_val (fan_percent (v * 100))"
    and "float_val (fan_percent (v * 100)) \<le> 1515 / 10"
  using percent_ok_range [OF assms] unfolding percent_ok_def Let_def by blast+

text \<open>
  C5. On the driver platform each fan percentage of the snapshot is the expression
  \<open>round(rpm / FAN_MAX_RPM * 100, 1)\<close> applied to the fan speed of the same snapshot
  when that speed is present, and is absent when the speed is absent. For every speed
  the driver path returns, the binary64 computation gives the binary64 number nearest to
  the exact quotient rounded to one decimal. The expression gives 50.0 for 3300 and 0.0
  for 0.
\<close>

theorem fan_percent_of_rpm:
  assumes "os_nt E"
  shows "cpu_fan_percent (fst (get_thermal_stats E s))
           = map_option fan_percent (cpu_fan_rpm (fst (get_thermal_stats E s)))
       \<and> gpu_fan_percent (fst (get_thermal_stats E s))
           = map_option fan_percent (gpu_fan_rpm (fst (get_thermal_stats E s)))
       \<and> (cpu_fan_rpm (fst (get_thermal_stats E s)) = None
            \<longrightarrow> cpu_fan_percent (fst (get_thermal_stats E s)) = None)
       \<and> (gpu_fan_rpm (fst (get_thermal_stats E s)) = None
            \<longrightarrow> gpu_fan_percent (fst (get_thermal_stats E s)) = None)
       \<and> (\<forall>rpm. cpu_fan_rpm (fst (get_thermal_stats E s)) = Some rpm
                 \<or> gpu_fan_rpm (fst (get_thermal_stats E s)) = Some rpm
            \<longrightarrow> fan_percent rpm = fl64 (round_half_even (rpm * 1000) FAN_MAX_RPM) 10)
       \<and> float_val (fan_percent 3300) = 50
       \<and> float_val (fan_percent 0) = 0"
proof -
  obtain cpu gpu where sp: "fst (atk_fan_speeds E s) = (cpu, gpu)"
    and c: "cpu = None \<or> (\<exists>v. 1 \<le> v \<and> v \<le> 100 \<and> cpu = Some (v * 100))"
    and g: "gpu = None \<or> (\<exists>v. 1 \<le> v \<and> v \<le> 100 \<and> gpu = Some (v * 100))"
    using atk_fan_speeds_cases [of E s] by blast
  have exact: "fan_percent rpm = fl64 (round_half_even (rpm * 1000) FAN_MAX_RPM) 10"
    if "cpu = Some rpm \<or> gpu = Some rpm" for rpm
    using that c g driver_rpm_percent(1) by auto
  show ?thesis
    using exact by (simp add: snapshot_nt [OF assms] sp fan_percent_3300 fan_percent_0)
qed

theorem fan_percent_of_rpm_witness:
  "os_nt (example_env True (Some [0x21, 0, 1, 0]) Written)
   \<and> cpu_fan_rpm (fst (get_thermal_stats (example_env True (Some [0x21, 0, 1, 0]) Written) fresh))
       = Some 3300
   \<and> cpu_fan_percent (fst (get_thermal_stats (example_env True (Some [0x21, 0, 1, 0]) Written) fresh))
       = Some (fan_percent 3300)
   \<and> float_val (fan_percent 3300) = 50
   \<and> fan_percent 3300 = fl64 (round_half_even (3300 * 1000) FAN_MAX_RPM) 10
   \<and> cpu_fan_rpm (fst (get_thermal_stats (example_env False None Written) fresh)) = None
   \<and> cpu_fan_percent (fst (get_thermal_stats (example_env False None Written) fresh)) = None"
  using fan_percent_of_rpm [of "example_env True (Some [0x21, 0, 1, 0]) Written" fresh]
    fan_percent_of_rpm [of "example_env False None Written" fresh]
  by (simp add: example_defs kernel32_defs thermal_defs)

lemma atk_read_fan_of_reply:
  assumes "fst (create_file E s)"
    and "fst (device_io_control E (snd (create_file E s)) DSTS device_id 0) = Some out_buf"
  shows "\<exists>raw dec. unpack_from_i32 out_buf = Inr raw
           \<and> - (2 ^ 31) \<le> raw \<and> raw < 2 ^ 31
           \<and> dec = (if 65536 \<le> raw then raw - 65536 else raw)
           \<and> fst (atk_read_fan E s device_id)
               = Inr (if 1 \<le> dec \<and> dec \<le> 100 then Some (dec * 100) else None)"
proof -
  obtain ok s1 where cf: "create_file E s = (ok, s1)" by (cases "create_file E s")
  obtain r s2 where io: "device_io_control E s1 DSTS device_id 0 = (r, s2)"
    by (cases "device_io_control E s1 DSTS device_id 0")
  from assms cf io have ok: "ok" and r: "r = Some out_buf" by simp_all
  have "length out_buf = 16"
    using device_io_control_len [of E s1 DSTS device_id 0 out_buf] io r by simp
  then obtain raw where raw: "unpack_from_i32 out_buf = Inr raw"
    "- (2 ^ 31) \<le> raw" "raw < 2 ^ 31"
    using unpack_from_i32_len16 by blast
  have "fst (atk_read_fan E s device_id) = Inr (fan_rpm_of (fan_decode raw))"
    using cf io ok r raw(1) by (simp add: atk_read_fan_def)
  also have "fan_rpm_of (fan_decode raw)
      = (if 1 \<le> (if 65536 \<le> raw then raw - 65536 else raw)
            \<and> (if 65536 \<le> raw then raw - 65536 else raw) \<le> 100
         then Some ((if 65536 \<le> raw then raw - 65536 else raw) * 100) else None)"
    by (auto simp: fan_rpm_of_def fan_decode_eq)
  finally show ?thesis
    using raw by blast
qed

lemma atk_read_fan_no_reply:
  "\<not> fst (create_file E s)
     \<or> fst (device_io_control E (snd (create_file E s)) DSTS device_id 0) = None
   \<Longrightarrow> fst (atk_read_fan E s device_id) = Inr None"
  by (cases "create_file E s"; cases "device_io_control E (snd (create_file E s)) DSTS device_id 0")
     (auto simp: atk_read_fan_def split: bool.splits)

text \<open>
  C10. A fan read never raises. It returns nothing when the device does not open or the
  transfer fails. Otherwise the reply holds a raw 32-bit integer, the decoded value is
  \<open>raw - 65536\<close> for \<open>raw \<ge> 65536\<close> and \<open>raw\<close> itself below, and the read returns the
  decoded value times 100 when that value lies from 1 to 100 and nothing when it is 0,
  negative or above 100. So a speed is a multiple of 100 from 100 to 10000, never 0, and
  its fan percentage is positive and at most 151.5. Replies of 65536 + 100 and of 100
  give 10000 RPM and 151.5 percent, a reply of 1 gives 100 RPM and 1.5 percent; replies
  of 65536, 0, 65536 + 101, 131077 and -1 give nothing.
\<close>

theorem fan_rpm_range:
  "(fst (atk_read_fan E s device_id) = Inr None
    \<or> (\<exists>v. 1 \<le> v \<and> v \<le> 100
          \<and> fst (atk_read_fan E s device_id) = Inr (Some (v * 100))
          \<and> 0 < float_val (fan_percent (v * 100))
          \<and> float_val (fan_percent (v * 100)) \<le> 1515 / 10))
   \<and> (\<not> fst (create_file E s)
         \<or> fst (device_io_control E (snd (create_file E s)) DSTS device_id 0) = None
        \<longrightarrow> fst (atk_read_fan E s device_id) = Inr None)
   \<and> (\<forall>out_buf.
        fst (create_file E s)
        \<and> fst (device_io_control E (snd (create_file E s)) DSTS device_id 0) = Some out_buf
        \<longrightarrow> (\<exists>raw dec. unpack_from_i32 out_buf = Inr raw
               \<and> - (2 ^ 31) \<le> raw \<and> raw < 2 ^ 31
               \<and> dec = (if 65536 \<le> raw then raw - 65536 else raw)
               \<and> fst (atk_read_fan E s device_id)
                   = Inr (if 1 \<le> dec \<and> dec \<le> 100 then Some (dec * 100) else None)))
   \<and> fan_rpm_of val = (if 1 \<le> val \<and> val \<le> 100 then Some (val * 100) else None)
   \<and> fst (atk_read_fan (example_env True (Some [0x64, 0, 1, 0]) Written) fresh ATK_CPU_FAN_ID)
       = Inr (Some 10000)
   \<and> float_val (fan_percent 10000) = 1515 / 10
   \<and> fst (atk_read_fan (example_env True (Some [0x01, 0, 0, 0]) Written) fresh ATK_CPU_FAN_ID)
       = Inr (Some 100)
   \<and> float_val (fan_percent 100) = 15 / 10
   \<and> fst (atk_read_fan (example_env True (Some [0x64, 0, 0, 0]) Written) fresh ATK_GPU_FAN_ID)
       = Inr (Some 10000)
   \<and> fst (atk_read_fan (example_env True (Some [0x00, 0, 1, 0]) Written) fresh ATK_CPU_FAN_ID)
       = Inr None
   \<and> fst (atk_read_fan (example_env True (Some [0x00, 0, 0, 0]) Written) fresh ATK_CPU_FAN_ID)
       = Inr None
   \<and> fst (atk_read_fan (example_env True (Some [0x65, 0, 1, 0]) Written) fresh ATK_CPU_FAN_ID)
       = Inr None
   \<and> fst (atk_read_fan (example_env True (Some [0x05, 0, 2, 0]) Written) fresh ATK_CPU_FAN_ID)
       = Inr None
   \<and> fst (atk_read_fan (example_env True (Some [0xFF, 0xFF, 0xFF, 0xFF]) Written) fresh
            ATK_CPU_FAN_ID)
       = Inr None"
proof -
  have range: "fst (atk_read_fan E s device_id) = Inr None
    \<or> (\<exists>v. 1 \<le> v \<and> v \<le> 100
          \<and> fst (atk_read_fan E s device_id) = Inr (Some (v * 100))
          \<and> 0 < float_val (fan_percent (v * 100))
          \<and> float_val (fan_percent (v * 100)) \<le> 1515 / 10)"
    using atk_read_fan_cases [of E s device_id] driver_rpm_percent(2,3) by blast
  have none: "\<not> fst (create_file E s)
         \<or> fst (device_io_control E (snd (create_file E s)) DSTS device_id 0) = None
        \<longrightarrow> fst (atk_read_fan E s device_id) = Inr None"
    using atk_read_fan_no_reply [of E s device_id] by blast
  have reply: "\<forall>out_buf.
        fst (create_file E s)
        \<and> fst (device_io_control E (snd (create_file E s)) DSTS device_id 0) = Some out_buf
        \<longrightarrow> (\<exists>raw dec. unpack_from_i32 out_buf = Inr raw
               \<and> - (2 ^ 31) \<le> raw \<and> raw < 2 ^ 31
               \<and> dec = (if 65536 \<le> raw then raw - 65536 else raw)
               \<and> fst (atk_read_fan E s device_id)
                   = Inr (if 1 \<le> dec \<and> dec \<le> 100 then Some (dec * 100) else None))"
    using atk_read_fan_of_reply [of E s device_id] by blast
  have rpm: "fan_rpm_of val = (if 1 \<le> val \<and> val \<le> 100 then Some (val * 100) else None)"
    by (auto simp: fan_rpm_of_def)
  have vectors:
    "fst (atk_read_fan (example_env True (Some [0x64, 0, 1, 0]) Written) fresh ATK_CPU_FAN_ID)
       = Inr (Some 10000)"
    "fst (atk_read_fan (example_env True (Some [0x01, 0, 0, 0]) Written) fresh ATK_CPU_FAN_ID)
       = Inr (Some 100)"
    "fst (atk_read_fan (example_env True (Some [0x64, 0, 0, 0]) Written) fresh ATK_GPU_FAN_ID)
       = Inr (Some 10000)"
    "fst (atk_read_fan (example_env True (Some [0x00, 0, 1, 0]) Written) fresh ATK_CPU_FAN_ID)
       = Inr None"
    "fst (atk_read_fan (example_env True (Some [0x00, 0, 0, 0]) Written) fresh ATK_CPU_FAN_ID)
       = Inr None"
    "fst (atk_read_fan (example_env True (Some [0x65, 0, 1, 0]) Written) fresh ATK_CPU_FAN_ID)
       = Inr None"
    "fst (atk_read_fan (example_env True (Some [0x05, 0, 2, 0]) Written) fresh ATK_CPU_FAN_ID)
       = Inr None"
    "fst (atk_read_fan (example_env True (Some [0xFF, 0xFF, 0xFF, 0xFF]) Written) fresh
            ATK_CPU_FAN_ID)
       = Inr None"
    by (simp_all add: example_defs kernel32_defs thermal_defs)
  show ?thesis
    using range none reply rpm vectors fan_percent_10000 fan_percent_100
    by (intro conjI) assumption+
qed

theorem fan_rpm_range_witness:
  "\<not> fst (create_file (example_env False None Written) fresh)
   \<and> fst (atk_read_fan (example_env False None Written) fresh ATK_CPU_FAN_ID) = Inr None
   \<and> fst (device_io_control (example_env True None Written)
            (snd (create_file (example_env True None Written) fresh)) DSTS ATK_CPU_FAN_ID 0) = None
   \<and> fst (atk_read_fan (example_env True None Written) fresh ATK_CPU_FAN_ID) = Inr None
   \<and> fst (create_file (example_env True (Some [0x21, 0, 1, 0]) Written) fresh)
   \<and> fst (device_io_control (example_env True (Some [0x21, 0, 1, 0]) Written)
            (snd (create_file (example_env True (Some [0x21, 0, 1, 0]) Written) fresh))
            DSTS ATK_CPU_FAN_ID 0)
       = Some ([0x21, 0, 1, 0] @ replicate 12 0)
   \<and> unpack_from_i32 ([0x21, 0, 1, 0] @ replicate 12 0) = Inr 65569
   \<and> fst (atk_read_fan (example_env True (Some [0x21, 0, 1, 0]) Written) fresh ATK_CPU_FAN_ID)
       = Inr (Some 3300)"
  using fan_rpm_range [of "example_env False None Written" fresh ATK_CPU_FAN_ID]
    fan_rpm_range [of "example_env True None Written" fresh ATK_CPU_FAN_ID]
    fan_rpm_range [of "example_env True (Some [0x21, 0, 1, 0]) Written" fresh ATK_CPU_FAN_ID]
  by (simp add: example_defs kernel32_defs thermal_defs)

end
